theory Spec2Isabelle
  imports Complex_Main "HOL-Library.AList"
begin

section \<open>Python values, exceptions and observable effects\<close>

text \<open>
  The two modules verified here are \<^verbatim>\<open>input_listener.py\<close> (class \<^verbatim>\<open>InputManager\<close>) and
  \<^verbatim>\<open>atspi_backend.py\<close> (classes \<^verbatim>\<open>AccessibilityNode\<close> and \<^verbatim>\<open>AccessibilityManager\<close>),
  together with \<^verbatim>\<open>config.py\<close>, which both import.

  Conventions of the embedding.
  \<^item> A value of type \<open>exn\<close> is a Python exception with its class name and its
    \<^verbatim>\<open>str()\<close>. A call of a library or of a builtin that may fail returns \<open>exn + 'a\<close>,
    with \<open>Inl\<close> for the exception, which is an instance of \<^verbatim>\<open>Exception\<close>.
  \<^item> A registered handler is arbitrary code: it returns, raises an instance of
    \<^verbatim>\<open>Exception\<close>, or raises an exception that is not one (\<^verbatim>\<open>SystemExit\<close>,
    \<^verbatim>\<open>KeyboardInterrupt\<close>, \<^verbatim>\<open>GeneratorExit\<close>). Its three outcomes are the type
    \<open>outcome\<close>; \<^verbatim>\<open>except Exception\<close> catches the second and lets the third pass, so
    the methods that call handlers return, besides their effects, the exception that
    leaves them, if any.
  \<^item> A method that calls no handler and whose whole body is enclosed in
    \<^verbatim>\<open>try: ... except Exception\<close> cannot raise, so its model returns plain values; the
    \<^verbatim>\<open>except\<close> branch is the \<open>Inl\<close> case of the calls in its body.
  \<^item> What a method does to the outside (a logger call, the invocation of a registered
    handler, a call that registers or removes a listener at the accessibility service)
    is returned as a list of \<open>effect\<close>s, in the order in which it happens.
  \<^item> Mutation of \<^verbatim>\<open>self\<close> is explicit state passing: the method takes the object and
    returns the updated one.
  \<^item> The libraries \<^verbatim>\<open>evdev\<close> and \<^verbatim>\<open>Atspi\<close> are not part of the repository. Their
    constants and the outcome of each of their calls are parameters (the records
    \<open>evdev\<close> and \<open>atspi\<close>), so every theorem holds for whatever they answer.
  \<^item> Accented letters of the source's string literals are written without the accent.
\<close>

datatype exn = Exn (exn_class: string) (exn_str: string)

datatype pyval =
    PNone
  | PBool bool
  | PInt int
  | PStr string
  | PDict "(string \<times> pyval) list"

datatype level = INFO | WARNING | ERROR

text \<open>
  The typed events of the capture engine. The source has no event objects: a
  \<open>ModifierChanged k b\<close> is the call \<^verbatim>\<open>_trigger_modifier_handlers(k, b)\<close> and a
  \<open>KeyDown k\<close> is the call \<^verbatim>\<open>_trigger_key_handlers(k)\<close>. No call of the source
  corresponds to \<open>Gesture\<close>.
\<close>

datatype event = KeyDown int | ModifierChanged int bool | Gesture string

text \<open>A handler or callback is a Python callable, compared by identity: a number names it.\<close>

type_synonym handler = nat

datatype effect =
    Log level string
  | Emit event
  | Invoke handler "pyval list"
  | RegisterKeystroke handler
  | DeregisterKeystroke handler
  | Shutdown

definition digit_char :: "nat \<Rightarrow> char" where
  "digit_char n = ''0123456789'' ! n"

fun str_nat :: "nat \<Rightarrow> string" where
  "str_nat n = (if n < 10 then [digit_char n] else str_nat (n div 10) @ [digit_char (n mod 10)])"

declare str_nat.simps [simp del]

definition str_int :: "int \<Rightarrow> string" where
  "str_int i = (if i < 0 then CHR ''-'' # str_nat (nat (- i)) else str_nat (nat i))"

section \<open>config.py\<close>

text \<open>
  \<^verbatim>\<open>CONFIG\<close> is the module's dictionary and \<^verbatim>\<open>def get_config(): return CONFIG\<close> its only
  function. The function takes no parameter: a call with arguments raises
  \<^verbatim>\<open>TypeError\<close> before the body runs. The model takes the list of positional arguments
  of the call, and returns the dictionary.
\<close>

type_synonym pydict = "(string \<times> pyval) list"

definition CONFIG :: pydict where
  "CONFIG =
     [(''voix'', PDict [(''moteur'', PStr ''espeak''), (''langue'', PStr ''fr''),
                        (''vitesse'', PInt 180), (''volume'', PInt 100),
                        (''personnalisation'', PBool True)]),
      (''braille'', PDict [(''afficheur'', PStr ''brltty''),
                           (''traduction_temps_reel'', PBool True),
                           (''parametres'', PDict [])]),
      (''haptique'', PDict [(''controleur'', PStr ''default''),
                            (''retour_personnalise'', PBool True)]),
      (''audio_spatial'', PDict [(''casque'', PStr ''default''), (''calibration'', PBool True)]),
      (''ia'', PDict [(''reconnaissance_image'', PBool True), (''ocr'', PBool True),
                      (''description_interface'', PBool True),
                      (''navigation_contextuelle'', PBool True)]),
      (''plateformes'', PDict [(''linux'', PBool True), (''windows'', PBool True),
                               (''android'', PBool True), (''console'', PBool True)])]"

definition get_config :: "pyval list \<Rightarrow> exn + pydict" where
  "get_config args =
     (if args = [] then Inr CONFIG
      else Inl (Exn ''TypeError''
        (''get_config() takes 0 positional arguments but '' @ str_nat (length args) @
         (if length args = 1 then '' was given'' else '' were given''))))"

text \<open>
  What the callers do with the value \<^verbatim>\<open>get_config\<close> returns, which is a dictionary.
  \<^verbatim>\<open>int(d)\<close> of a dictionary raises \<^verbatim>\<open>TypeError\<close> whatever it holds (the text is that of
  Python 3.10 and later); a dictionary is true when it is not empty.
\<close>

definition int_of_dict :: "pydict \<Rightarrow> exn + int" where
  "int_of_dict d =
     Inl (Exn ''TypeError''
       (''int() argument must be a string, a bytes-like object or a real number, not 'dict''
        @ [CHR 0x27]))"

definition dict_truth :: "pydict \<Rightarrow> bool" where
  "dict_truth d = (d \<noteq> [])"

section \<open>input_listener.py\<close>

subsection \<open>The evdev library, as the module sees it\<close>

record InputEvent =
  type :: int
  code :: int
  "value" :: int

record InputDevice =
  path :: string
  name :: string
  capabilities :: "exn + (int \<rightharpoonup> int list)"

text \<open>
  \<open>EV_KEY\<close> to \<open>KEY\<close> are the attributes of \<^verbatim>\<open>evdev.ecodes\<close> the module reads. \<open>KEY\<close> is
  the dictionary from key codes to names: a code with one name has that string, a code
  with several has them in a list or, in later versions of the library, in a tuple.
  \<open>key_up\<close> and \<open>key_down\<close> are those of
  \<^verbatim>\<open>evdev.KeyEvent\<close>. \<open>categorize\<close> gives the \<^verbatim>\<open>keystate\<close> of the object that
  \<^verbatim>\<open>categorize(event)\<close> returns, or the exception raised on the way to it.
  \<open>list_devices\<close> and \<open>open_device\<close> are \<^verbatim>\<open>evdev.list_devices()\<close> and
  \<^verbatim>\<open>evdev.InputDevice(path)\<close>.
\<close>

datatype key_name = Name string | NameList "string list" | NameTuple "string list"

record evdev =
  EV_KEY :: int
  KEY_A :: int
  KEY_SPACE :: int
  KEY_ENTER :: int
  KEY_LEFTSHIFT :: int
  KEY_RIGHTSHIFT :: int
  KEY_LEFTCTRL :: int
  KEY_RIGHTCTRL :: int
  KEY_LEFTALT :: int
  KEY_RIGHTALT :: int
  KEY_LEFTMETA :: int
  KEY_RIGHTMETA :: int
  KEY :: "int \<rightharpoonup> key_name"
  key_up :: int
  key_down :: int
  categorize :: "InputEvent \<Rightarrow> exn + int"
  list_devices :: "exn + string list"
  open_device :: "string \<Rightarrow> exn + InputDevice"

subsection \<open>KeyState and InputManager\<close>

record KeyState =
  pressed_keys :: "int set"
  modifiers :: "int set"
  last_key_time :: real
  key_repeat_delay :: int
  key_repeat_rate :: int

definition KeyState_init :: KeyState where
  "KeyState_init =
     \<lparr>pressed_keys = {}, modifiers = {}, last_key_time = 0,
      key_repeat_delay = 500, key_repeat_rate = 30\<rparr>"

text \<open>
  The field \<^verbatim>\<open>thread\<close> is left out: the worker thread only calls
  \<^verbatim>\<open>_handle_key_event\<close> on the events it reads, which \<open>process_events\<close> below does
  for a finite sequence of them.
\<close>

record InputManager =
  initialized :: bool
  devices :: "InputDevice list"
  key_state :: KeyState
  running :: bool
  key_handlers :: "string \<rightharpoonup> handler list"
  modifier_handlers :: "string \<rightharpoonup> handler list"
  gesture_handlers :: "string \<rightharpoonup> handler list"

definition InputManager_init :: InputManager where
  "InputManager_init =
     \<lparr>initialized = False, devices = [], key_state = KeyState_init, running = False,
      key_handlers = Map.empty, modifier_handlers = Map.empty,
      gesture_handlers = Map.empty\<rparr>"

text \<open>
  \<^verbatim>\<open>d[k].append(h)\<close> after \<^verbatim>\<open>if k not in d: d[k] = []\<close>.
\<close>

definition append_handler ::
  "(string \<rightharpoonup> handler list) \<Rightarrow> string \<Rightarrow> handler \<Rightarrow> (string \<rightharpoonup> handler list)" where
  "append_handler d k h = d(k \<mapsto> (case d k of None \<Rightarrow> [] | Some hs \<Rightarrow> hs) @ [h])"

definition register_key_handler ::
  "string \<Rightarrow> handler \<Rightarrow> InputManager \<Rightarrow> bool \<times> InputManager" where
  "register_key_handler k h m = (True, m\<lparr>key_handlers := append_handler (key_handlers m) k h\<rparr>)"

definition register_modifier_handler ::
  "string \<Rightarrow> handler \<Rightarrow> InputManager \<Rightarrow> bool \<times> InputManager" where
  "register_modifier_handler k h m =
     (True, m\<lparr>modifier_handlers := append_handler (modifier_handlers m) k h\<rparr>)"

definition register_gesture_handler ::
  "string \<Rightarrow> handler \<Rightarrow> InputManager \<Rightarrow> bool \<times> InputManager" where
  "register_gesture_handler k h m =
     (True, m\<lparr>gesture_handlers := append_handler (gesture_handlers m) k h\<rparr>)"

definition get_modifier_codes :: "evdev \<Rightarrow> int set" where
  "get_modifier_codes lib =
     {KEY_LEFTSHIFT lib, KEY_RIGHTSHIFT lib, KEY_LEFTCTRL lib, KEY_RIGHTCTRL lib,
      KEY_LEFTALT lib, KEY_RIGHTALT lib, KEY_LEFTMETA lib, KEY_RIGHTMETA lib}"

text \<open>
  What calling a handler does: it returns, it raises an instance of \<^verbatim>\<open>Exception\<close>, or
  it raises an exception that is not one.
\<close>

datatype outcome = Returns | Raises exn | RaisesBase exn

text \<open>
  \<^verbatim>\<open>for handler in handlers: handler(*args)\<close>, with \<open>run h args\<close> the outcome of calling
  the handler \<open>h\<close>. The loop stops at the first handler that raises and hands the
  exception on.
\<close>

fun call_handlers ::
  "(handler \<Rightarrow> pyval list \<Rightarrow> outcome) \<Rightarrow> pyval list \<Rightarrow> handler list \<Rightarrow>
   effect list \<times> outcome" where
  "call_handlers run args [] = ([], Returns)"
| "call_handlers run args (h # hs) =
     (case run h args of
        Returns \<Rightarrow>
          (case call_handlers run args hs of (tr, r) \<Rightarrow> (Invoke h args # tr, r))
      | Raises e \<Rightarrow> ([Invoke h args], Raises e)
      | RaisesBase e \<Rightarrow> ([Invoke h args], RaisesBase e))"

text \<open>
  The body of \<^verbatim>\<open>_trigger_key_handlers\<close> and \<^verbatim>\<open>_trigger_modifier_handlers\<close> after the
  event is known: look the name up in \<^verbatim>\<open>ecodes.KEY\<close> (a \<^verbatim>\<open>KeyError\<close> when the code is
  not there), test whether it is a key of the handler dictionary (a \<^verbatim>\<open>TypeError\<close> for a
  list, which cannot be hashed; a tuple is not among the keys, which are strings), then
  call the handlers registered under that name. The \<^verbatim>\<open>except Exception\<close> branch logs
  the exception; an exception that is not an \<^verbatim>\<open>Exception\<close> leaves the method, and is the
  second component of the result.
\<close>

definition trigger_handlers ::
  "evdev \<Rightarrow> (handler \<Rightarrow> pyval list \<Rightarrow> outcome) \<Rightarrow> (string \<rightharpoonup> handler list) \<Rightarrow>
   string \<Rightarrow> int \<Rightarrow> pyval list \<Rightarrow> effect list \<times> exn option" where
  "trigger_handlers lib run table msg key_code args =
     (case KEY lib key_code of
        None \<Rightarrow> ([Log ERROR (msg @ str_int key_code)], None)
      | Some (NameList ns) \<Rightarrow> ([Log ERROR (msg @ ''unhashable type: 'list'' @ [CHR 0x27])], None)
      | Some (NameTuple ns) \<Rightarrow> ([], None)
      | Some (Name key_name) \<Rightarrow>
          (case table key_name of
             None \<Rightarrow> ([], None)
           | Some hs \<Rightarrow>
               (case call_handlers run args hs of
                  (tr, Returns) \<Rightarrow> (tr, None)
                | (tr, Raises e) \<Rightarrow> (tr @ [Log ERROR (msg @ exn_str e)], None)
                | (tr, RaisesBase e) \<Rightarrow> (tr, Some e))))"

definition trigger_key_handlers ::
  "evdev \<Rightarrow> (handler \<Rightarrow> pyval list \<Rightarrow> outcome) \<Rightarrow> InputManager \<Rightarrow> int \<Rightarrow>
   effect list \<times> exn option" where
  "trigger_key_handlers lib run m key_code =
     (case trigger_handlers lib run (key_handlers m)
             ''Erreur lors du declenchement des gestionnaires de touche: '' key_code [] of
        (tr, leaves) \<Rightarrow> (Emit (KeyDown key_code) # tr, leaves))"

definition trigger_modifier_handlers ::
  "evdev \<Rightarrow> (handler \<Rightarrow> pyval list \<Rightarrow> outcome) \<Rightarrow> InputManager \<Rightarrow> int \<Rightarrow> bool \<Rightarrow>
   effect list \<times> exn option" where
  "trigger_modifier_handlers lib run m modifier_code pressed =
     (case trigger_handlers lib run (modifier_handlers m)
             ''Erreur lors du declenchement des gestionnaires de modificateur: ''
             modifier_code [PBool pressed] of
        (tr, leaves) \<Rightarrow> (Emit (ModifierChanged modifier_code pressed) # tr, leaves))"

text \<open>
  \<^verbatim>\<open>_check_gestures\<close>: the body of its \<^verbatim>\<open>try\<close> is the statement \<^verbatim>\<open>pass\<close> under the
  comment that gesture detection could be implemented there.
\<close>

definition check_gestures :: "InputManager \<Rightarrow> effect list" where
  "check_gestures m = []"

text \<open>
  The first block of \<^verbatim>\<open>_handle_key_event\<close> (under the comment on modifiers): the sets
  are updated first, then the modifier handlers are triggered.
\<close>

definition update_keys ::
  "evdev \<Rightarrow> (handler \<Rightarrow> pyval list \<Rightarrow> outcome) \<Rightarrow> int \<Rightarrow> InputEvent \<Rightarrow> InputManager \<Rightarrow>
   KeyState \<times> effect list \<times> exn option" where
  "update_keys lib run keystate event m =
     (let ks = key_state m in
      if keystate = key_down lib then
        let ks' = ks\<lparr>pressed_keys := insert (code event) (pressed_keys ks)\<rparr> in
        if code event \<in> get_modifier_codes lib then
          let ks'' = ks'\<lparr>modifiers := insert (code event) (modifiers ks')\<rparr> in
          (ks'', trigger_modifier_handlers lib run m (code event) True)
        else (ks', [], None)
      else if keystate = key_up lib then
        let ks' = ks\<lparr>pressed_keys := pressed_keys ks - {code event}\<rparr> in
        if code event \<in> get_modifier_codes lib then
          let ks'' = ks'\<lparr>modifiers := modifiers ks' - {code event}\<rparr> in
          (ks'', trigger_modifier_handlers lib run m (code event) False)
        else (ks', [], None)
      else (ks, [], None))"

text \<open>
  \<^verbatim>\<open>_handle_key_event\<close>. \<open>now\<close> is what \<^verbatim>\<open>time.time()\<close> returns during the call. Of the
  instances of \<^verbatim>\<open>Exception\<close> only those of \<^verbatim>\<open>categorize\<close> reach the method's own
  \<^verbatim>\<open>except\<close>: the trigger methods and \<^verbatim>\<open>_check_gestures\<close> catch theirs. An exception
  that leaves a trigger method leaves this method too, at that point: what was assigned
  before stays, what comes after is not run. The result is the manager, the effects and
  the exception that leaves the method, if any.
\<close>

definition handle_key_event ::
  "evdev \<Rightarrow> (handler \<Rightarrow> pyval list \<Rightarrow> outcome) \<Rightarrow> real \<Rightarrow> InputEvent \<Rightarrow> InputManager \<Rightarrow>
   InputManager \<times> effect list \<times> exn option" where
  "handle_key_event lib run now event m =
     (if type event = EV_KEY lib then
        (case categorize lib event of
           Inl e \<Rightarrow>
             (m, [Log ERROR (''Erreur lors du traitement de l'evenement de touche: '' @ exn_str e)],
              None)
         | Inr keystate \<Rightarrow>
             (case update_keys lib run keystate event m of
                (ks1, tr1, Some e) \<Rightarrow> (m\<lparr>key_state := ks1\<rparr>, tr1, Some e)
              | (ks1, tr1, None) \<Rightarrow>
                  (case (if keystate = key_down lib
                         then (case trigger_key_handlers lib run m (code event) of
                                 (tr, Some e) \<Rightarrow> (tr, Some e)
                               | (tr, None) \<Rightarrow> (tr @ check_gestures m, None))
                         else ([], None)) of
                     (tr2, Some e) \<Rightarrow> (m\<lparr>key_state := ks1\<rparr>, tr1 @ tr2, Some e)
                   | (tr2, None) \<Rightarrow>
                       (m\<lparr>key_state :=
                            (if keystate = key_down lib then ks1\<lparr>last_key_time := now * 1000\<rparr>
                             else if keystate = key_up lib then ks1\<lparr>last_key_time := 0\<rparr>
                             else ks1)\<rparr>,
                        tr1 @ tr2, None))))
      else (m, [], None))"

text \<open>
  The calls of \<^verbatim>\<open>_handle_key_event\<close> that \<^verbatim>\<open>_input_loop\<close> makes for a finite sequence
  of events read, each with the clock reading of its processing, while \<^verbatim>\<open>running\<close>
  stays true. Neither \<^verbatim>\<open>except Exception\<close> of the loop catches an exception that
  leaves \<^verbatim>\<open>_handle_key_event\<close>: the loop ends there and the remaining events are not
  processed.
\<close>

fun process_events ::
  "evdev \<Rightarrow> (handler \<Rightarrow> pyval list \<Rightarrow> outcome) \<Rightarrow> (real \<times> InputEvent) list \<Rightarrow>
   InputManager \<Rightarrow> InputManager \<times> effect list \<times> exn option" where
  "process_events lib run [] m = (m, [], None)"
| "process_events lib run ((now, event) # evs) m =
     (case handle_key_event lib run now event m of
        (m1, tr1, Some e) \<Rightarrow> (m1, tr1, Some e)
      | (m1, tr1, None) \<Rightarrow>
          (case process_events lib run evs m1 of (m2, tr2, r) \<Rightarrow> (m2, tr1 @ tr2, r)))"

text \<open>No handler raises an exception that is not an instance of \<^verbatim>\<open>Exception\<close>.\<close>

definition raises_exceptions_only :: "(handler \<Rightarrow> pyval list \<Rightarrow> outcome) \<Rightarrow> bool" where
  "raises_exceptions_only run = (\<forall>h args e. run h args \<noteq> RaisesBase e)"

definition emitted :: "effect list \<Rightarrow> event list" where
  "emitted tr = concat (map (\<lambda>x. case x of Emit ev \<Rightarrow> [ev] | _ \<Rightarrow> []) tr)"

text \<open>
  The raw events of the specification's scenarios: a key event of code \<open>k\<close> whose
  \<^verbatim>\<open>value\<close> is 1 (down) or 0 (up), as the kernel reports them.
\<close>

definition down :: "evdev \<Rightarrow> int \<Rightarrow> InputEvent" where
  "down lib k = \<lparr>type = EV_KEY lib, code = k, value = 1\<rparr>"

definition up :: "evdev \<Rightarrow> int \<Rightarrow> InputEvent" where
  "up lib k = \<lparr>type = EV_KEY lib, code = k, value = 0\<rparr>"

text \<open>
  \<open>modifiers \<subseteq> pressed_keys\<close> alone is not preserved by \<^verbatim>\<open>_handle_key_event\<close>: a key-up
  of a code outside the modifier codes leaves \<open>modifiers\<close> as it is. The inductive
  invariant adds that \<open>modifiers\<close> holds modifier codes only, which the constructor
  establishes.
\<close>

definition key_state_inv :: "evdev \<Rightarrow> KeyState \<Rightarrow> bool" where
  "key_state_inv lib ks =
     (modifiers ks \<subseteq> pressed_keys ks \<and> modifiers ks \<subseteq> get_modifier_codes lib)"

text \<open>
  What the theorems about the scenarios ask of the library: \<^verbatim>\<open>categorize\<close> reports a
  down event as \<^verbatim>\<open>key_down\<close> and an up event as \<^verbatim>\<open>key_up\<close>, and the two differ.
\<close>

definition reads_key_events :: "evdev \<Rightarrow> bool" where
  "reads_key_events lib =
     (key_up lib \<noteq> key_down lib \<and>
      (\<forall>k. categorize lib (down lib k) = Inr (key_down lib)) \<and>
      (\<forall>k. categorize lib (up lib k) = Inr (key_up lib)))"

subsection \<open>Initialization\<close>

definition is_keyboard_device :: "evdev \<Rightarrow> InputDevice \<Rightarrow> bool" where
  "is_keyboard_device lib device =
     (case capabilities device of
        Inl e \<Rightarrow> False
      | Inr caps \<Rightarrow>
          (case caps (EV_KEY lib) of
             None \<Rightarrow> False
           | Some codes \<Rightarrow>
               list_ex (\<lambda>c. c \<in> set codes) [KEY_A lib, KEY_SPACE lib, KEY_ENTER lib]))"

text \<open>
  The loop over \<^verbatim>\<open>evdev.list_devices()\<close>: the devices it appends to \<^verbatim>\<open>self.devices\<close>
  and what it logs. A device that cannot be opened is logged and passed over.
\<close>

fun find_keyboards :: "evdev \<Rightarrow> string list \<Rightarrow> InputDevice list \<times> effect list" where
  "find_keyboards lib [] = ([], [])"
| "find_keyboards lib (device_path # ps) =
     (case find_keyboards lib ps of
        (ds, tr) \<Rightarrow>
          (case open_device lib device_path of
             Inl e \<Rightarrow>
               (ds, Log WARNING (''Impossible d'ouvrir le peripherique '' @ device_path @ '': ''
                                 @ exn_str e) # tr)
           | Inr device \<Rightarrow>
               if is_keyboard_device lib device
               then (device # ds, Log INFO (''Peripherique clavier trouve: '' @ name device) # tr)
               else (ds, tr)))"

definition init_error :: "exn \<Rightarrow> effect" where
  "init_error e =
     Log ERROR (''Erreur lors de l'initialisation du gestionnaire d'entrees: '' @ exn_str e)"

text \<open>\<^verbatim>\<open>int(config.get_config(section, key, default))\<close>.\<close>

definition config_int :: "pyval list \<Rightarrow> exn + int" where
  "config_int args = (case get_config args of Inl e \<Rightarrow> Inl e | Inr d \<Rightarrow> int_of_dict d)"

text \<open>\<^verbatim>\<open>InputManager.initialize\<close>.\<close>

definition InputManager_initialize ::
  "evdev \<Rightarrow> InputManager \<Rightarrow> bool \<times> InputManager \<times> effect list" where
  "InputManager_initialize lib m =
     (case config_int [PStr ''keyboard'', PStr ''key_repeat_delay'', PInt 500] of
        Inl e \<Rightarrow> (False, m, [init_error e])
      | Inr delay \<Rightarrow>
          let m1 = m\<lparr>key_state := (key_state m)\<lparr>key_repeat_delay := delay\<rparr>\<rparr> in
          (case config_int [PStr ''keyboard'', PStr ''key_repeat_rate'', PInt 30] of
             Inl e \<Rightarrow> (False, m1, [init_error e])
           | Inr rate \<Rightarrow>
               let m2 = m1\<lparr>key_state := (key_state m1)\<lparr>key_repeat_rate := rate\<rparr>\<rparr> in
               (case list_devices lib of
                  Inl e \<Rightarrow> (False, m2, [init_error e])
                | Inr paths \<Rightarrow>
                    (case find_keyboards lib paths of
                       (found, tr) \<Rightarrow>
                         let m3 = m2\<lparr>devices := devices m2 @ found\<rparr> in
                         if devices m3 = []
                         then (False, m3, tr @ [Log ERROR ''Aucun peripherique clavier trouve''])
                         else (True, m3\<lparr>initialized := True\<rparr>,
                               tr @ [Log INFO ''Gestionnaire d'entrees initialise avec succes''])))))"

text \<open>
  The evdev constants of Linux (\<^verbatim>\<open>input-event-codes.h\<close>), with the names of the codes the
  examples use, two devices (a keyboard and a mouse), and \<^verbatim>\<open>categorize\<close> reading the
  key state from \<^verbatim>\<open>event.value\<close>. It is the library at which the general theorems are
  instantiated.
\<close>

definition linux_KEY :: "int \<rightharpoonup> key_name" where
  "linux_KEY =
     [28 \<mapsto> Name ''KEY_ENTER'', 29 \<mapsto> Name ''KEY_LEFTCTRL'', 30 \<mapsto> Name ''KEY_A'',
      38 \<mapsto> Name ''KEY_L'', 42 \<mapsto> Name ''KEY_LEFTSHIFT'', 46 \<mapsto> Name ''KEY_C'',
      56 \<mapsto> Name ''KEY_LEFTALT'', 57 \<mapsto> Name ''KEY_SPACE'',
      113 \<mapsto> NameList [''KEY_MIN_INTERESTING'', ''KEY_MUTE'']]"

definition kbd0 :: InputDevice where
  "kbd0 = \<lparr>path = ''/dev/input/event0'', name = ''kbd0'',
            capabilities = Inr [1 \<mapsto> [28, 29, 30, 46, 57]]\<rparr>"

definition mouse0 :: InputDevice where
  "mouse0 = \<lparr>path = ''/dev/input/event1'', name = ''mouse0'',
              capabilities = Inr [1 \<mapsto> [272, 273], 2 \<mapsto> [0, 1]]\<rparr>"

definition linux_evdev :: "string list \<Rightarrow> evdev" where
  "linux_evdev paths =
     \<lparr>EV_KEY = 1, KEY_A = 30, KEY_SPACE = 57, KEY_ENTER = 28,
      KEY_LEFTSHIFT = 42, KEY_RIGHTSHIFT = 54, KEY_LEFTCTRL = 29, KEY_RIGHTCTRL = 97,
      KEY_LEFTALT = 56, KEY_RIGHTALT = 100, KEY_LEFTMETA = 125, KEY_RIGHTMETA = 126,
      KEY = linux_KEY, key_up = 0, key_down = 1,
      categorize = (\<lambda>e. if value e = 0 \<or> value e = 1 \<or> value e = 2 then Inr (value e)
                         else Inl (Exn ''AttributeError'' ''keystate'')),
      list_devices = Inr paths,
      open_device = (\<lambda>p. if p = ''/dev/input/event0'' then Inr kbd0
                          else if p = ''/dev/input/event1'' then Inr mouse0
                          else Inl (Exn ''FileNotFoundError'' p))\<rparr>"

section \<open>atspi_backend.py\<close>

subsection \<open>The accessibility service, as the module sees it\<close>

datatype Role = APPLICATION | OtherRole nat

datatype StateType = FOCUSED | VISIBLE | SENSITIVE | OtherState nat

text \<open>
  An \<^verbatim>\<open>Atspi.Accessible\<close> is known by what its methods answer. \<open>get_text\<close> is the
  outcome of \<^verbatim>\<open>accessible.get_text()\<close>: an exception, \<^verbatim>\<open>None\<close>, or a text interface
  given by what its \<^verbatim>\<open>get_text(0, -1)\<close> answers. \<open>get_actions\<close> is the outcome of
  \<^verbatim>\<open>accessible.get_action_iface().get_actions()\<close>: an exception or the list of what
  each action's \<^verbatim>\<open>get_name()\<close> answers. An object answers the same every time it is
  asked.
\<close>

record Accessible =
  get_role_name :: "exn + string"
  get_name :: "exn + string"
  get_description :: "exn + string"
  get_state_set :: "exn + StateType set"
  get_role :: "exn + Role"
  get_process_id :: "exn + int"
  get_text :: "exn + (exn + string) option"
  get_actions :: "exn + (exn + string) list"

record Desktop =
  as_accessible :: Accessible
  get_child_count :: "exn + int"
  get_child_at_index :: "int \<Rightarrow> exn + Accessible option"
  get_accessible_at_point :: "int \<Rightarrow> int \<Rightarrow> exn + Accessible option"

record atspi =
  init :: "exn option"
  get_desktop :: "int \<Rightarrow> exn + Desktop"
  get_desktop_count :: "exn + int"
  get_focused :: "exn + Accessible option"
  register_keystroke_listener :: "handler \<Rightarrow> exn option"
  deregister_keystroke_listener :: "handler \<Rightarrow> exn option"
  shutdown :: "exn option"

subsection \<open>AccessibilityNode\<close>

text \<open>\<^verbatim>\<open>children\<close> and \<^verbatim>\<open>parent\<close> are set to \<^verbatim>\<open>[]\<close> and \<^verbatim>\<open>None\<close> by the constructor and
  never assigned again in the module.\<close>

record AccessibilityNode =
  accessible :: Accessible
  role :: string
  name :: string
  description :: string
  states :: "StateType set"
  children :: "Accessible list"
  parent :: "Accessible option"

definition AccessibilityNode_init :: "Accessible \<Rightarrow> exn + AccessibilityNode" where
  "AccessibilityNode_init acc =
     (case get_role_name acc of
        Inl e \<Rightarrow> Inl e
      | Inr r \<Rightarrow>
          (case get_name acc of
             Inl e \<Rightarrow> Inl e
           | Inr n \<Rightarrow>
               (case get_description acc of
                  Inl e \<Rightarrow> Inl e
                | Inr d \<Rightarrow>
                    (case get_state_set acc of
                       Inl e \<Rightarrow> Inl e
                     | Inr s \<Rightarrow>
                         Inr \<lparr>accessible = acc, role = r, name = n, description = d,
                              states = s, children = [], parent = None\<rparr>))))"

text \<open>\<^verbatim>\<open>AccessibilityNode.get_text\<close>: the \<^verbatim>\<open>except\<close> branch is \<^verbatim>\<open>pass\<close>, nothing is logged.\<close>

definition AccessibilityNode_get_text :: "AccessibilityNode \<Rightarrow> string \<times> effect list" where
  "AccessibilityNode_get_text node =
     (case get_text (accessible node) of
        Inl e \<Rightarrow> ('''', [])
      | Inr None \<Rightarrow> ('''', [])
      | Inr (Some iface) \<Rightarrow> (case iface of Inl e \<Rightarrow> ('''', []) | Inr s \<Rightarrow> (s, [])))"

text \<open>A list comprehension over calls that may raise: the first exception ends it.\<close>

fun comprehension :: "(exn + 'a) list \<Rightarrow> exn + 'a list" where
  "comprehension [] = Inr []"
| "comprehension (x # xs) =
     (case x of
        Inl e \<Rightarrow> Inl e
      | Inr v \<Rightarrow> (case comprehension xs of Inl e \<Rightarrow> Inl e | Inr vs \<Rightarrow> Inr (v # vs)))"

text \<open>\<^verbatim>\<open>AccessibilityNode.get_actions\<close>: the \<^verbatim>\<open>except\<close> branch returns \<^verbatim>\<open>[]\<close>, nothing is
  logged.\<close>

definition AccessibilityNode_get_actions :: "AccessibilityNode \<Rightarrow> string list \<times> effect list" where
  "AccessibilityNode_get_actions node =
     (case get_actions (accessible node) of
        Inl e \<Rightarrow> ([], [])
      | Inr acts \<Rightarrow> (case comprehension acts of Inl e \<Rightarrow> ([], []) | Inr ns \<Rightarrow> (ns, [])))"

subsection \<open>AccessibilityManager\<close>

text \<open>
  \<^verbatim>\<open>event_listeners\<close> is iterated by \<^verbatim>\<open>cleanup\<close>, so the dictionary is an association
  list in insertion order; \<open>AList.update\<close> replaces the value of a key in place and
  appends a new key at the end, as assignment to a Python dictionary does.
\<close>

record AccessibilityManager =
  initialized :: bool
  root :: "AccessibilityNode option"
  focused_node :: "AccessibilityNode option"
  event_listeners :: "(string \<times> handler list) list"
  braille_display :: "bool option"

definition AccessibilityManager_init :: AccessibilityManager where
  "AccessibilityManager_init =
     \<lparr>initialized = False, root = None, focused_node = None, event_listeners = [],
      braille_display = None\<rparr>"

definition initialize_braille ::
  "AccessibilityManager \<Rightarrow> bool \<times> AccessibilityManager \<times> effect list" where
  "initialize_braille m =
     (True, m\<lparr>braille_display := Some True\<rparr>, [Log INFO ''Support braille initialise''])"

definition a11y_init_error :: "exn \<Rightarrow> effect" where
  "a11y_init_error e =
     Log ERROR (''Erreur lors de l'initialisation du gestionnaire d'accessibilite: ''
                @ exn_str e)"

text \<open>\<^verbatim>\<open>AccessibilityManager.initialize\<close>.\<close>

definition AccessibilityManager_initialize ::
  "atspi \<Rightarrow> AccessibilityManager \<Rightarrow> bool \<times> AccessibilityManager \<times> effect list" where
  "AccessibilityManager_initialize a m =
     (case init a of
        Some e \<Rightarrow> (False, m, [a11y_init_error e])
      | None \<Rightarrow>
          (case get_desktop a 0 of
             Inl e \<Rightarrow> (False, m, [a11y_init_error e])
           | Inr d \<Rightarrow>
               (case AccessibilityNode_init (as_accessible d) of
                  Inl e \<Rightarrow> (False, m, [a11y_init_error e])
                | Inr node \<Rightarrow>
                    let m1 = m\<lparr>root := Some node\<rparr> in
                    (case get_config [PStr ''braille'', PStr ''enabled'', PBool False] of
                       Inl e \<Rightarrow> (False, m1, [a11y_init_error e])
                     | Inr v \<Rightarrow>
                         (case (if dict_truth v
                                then (case initialize_braille m1 of (ok, m', tr) \<Rightarrow> (m', tr))
                                else (m1, [])) of
                            (m2, tr) \<Rightarrow>
                              (True, m2\<lparr>initialized := True\<rparr>,
                               tr @ [Log INFO ''Gestionnaire d'accessibilite initialise avec succes'']))))))"

definition focused_error :: "exn \<Rightarrow> effect" where
  "focused_error e =
     Log ERROR (''Erreur lors de la recuperation du noeud focalise: '' @ exn_str e)"

definition AccessibilityManager_get_focused_node ::
  "atspi \<Rightarrow> AccessibilityManager \<Rightarrow> AccessibilityNode option \<times> effect list" where
  "AccessibilityManager_get_focused_node a m =
     (case get_focused a of
        Inl e \<Rightarrow> (None, [focused_error e])
      | Inr None \<Rightarrow> (None, [])
      | Inr (Some focused) \<Rightarrow>
          (case AccessibilityNode_init focused of
             Inl e \<Rightarrow> (None, [focused_error e])
           | Inr node \<Rightarrow> (Some node, [])))"

definition point_error :: "int \<Rightarrow> int \<Rightarrow> exn \<Rightarrow> effect" where
  "point_error x y e =
     Log ERROR (''Erreur lors de la recuperation du noeud a la position ('' @ str_int x @ '', ''
                @ str_int y @ ''): '' @ exn_str e)"

definition AccessibilityManager_get_node_at_point ::
  "atspi \<Rightarrow> AccessibilityManager \<Rightarrow> int \<Rightarrow> int \<Rightarrow> AccessibilityNode option \<times> effect list" where
  "AccessibilityManager_get_node_at_point a m x y =
     (case get_desktop a 0 of
        Inl e \<Rightarrow> (None, [point_error x y e])
      | Inr d \<Rightarrow>
          (case get_accessible_at_point d x y of
             Inl e \<Rightarrow> (None, [point_error x y e])
           | Inr None \<Rightarrow> (None, [])
           | Inr (Some acc) \<Rightarrow>
               (case AccessibilityNode_init acc of
                  Inl e \<Rightarrow> (None, [point_error x y e])
                | Inr node \<Rightarrow> (Some node, []))))"

text \<open>\<^verbatim>\<open>range(n)\<close>.\<close>

definition py_range :: "int \<Rightarrow> int list" where
  "py_range n = map int [0..<nat n]"

text \<open>
  One pass of the inner loop body of \<^verbatim>\<open>get_application_list\<close> for the child \<open>app\<close>:
  \<open>Inr None\<close> when the \<^verbatim>\<open>if\<close> skips it, \<open>Inr (Some entry)\<close> with the dictionary that is
  appended, \<open>Inl e\<close> when a call raises. Nothing inside the loops catches.
\<close>

definition app_entry :: "Accessible option \<Rightarrow> exn + pyval option" where
  "app_entry app =
     (case app of
        None \<Rightarrow> Inr None
      | Some acc \<Rightarrow>
          (case get_role acc of
             Inl e \<Rightarrow> Inl e
           | Inr r \<Rightarrow>
               if r = APPLICATION then
                 (case AccessibilityNode_init acc of
                    Inl e \<Rightarrow> Inl e
                  | Inr node \<Rightarrow>
                      (case get_process_id acc of
                         Inl e \<Rightarrow> Inl e
                       | Inr pid \<Rightarrow>
                           Inr (Some (PDict [(''name'', PStr (name node)), (''pid'', PInt pid),
                                             (''role'', PStr (role node)),
                                             (''description'', PStr (description node))]))))
               else Inr None))"

fun children_loop :: "Desktop \<Rightarrow> int list \<Rightarrow> pyval list \<Rightarrow> exn + pyval list" where
  "children_loop d [] apps = Inr apps"
| "children_loop d (j # js) apps =
     (case get_child_at_index d j of
        Inl e \<Rightarrow> Inl e
      | Inr app \<Rightarrow>
          (case app_entry app of
             Inl e \<Rightarrow> Inl e
           | Inr None \<Rightarrow> children_loop d js apps
           | Inr (Some entry) \<Rightarrow> children_loop d js (apps @ [entry])))"

fun desktops_loop :: "atspi \<Rightarrow> int list \<Rightarrow> pyval list \<Rightarrow> exn + pyval list" where
  "desktops_loop a [] apps = Inr apps"
| "desktops_loop a (i # ixs) apps =
     (case get_desktop a i of
        Inl e \<Rightarrow> Inl e
      | Inr d \<Rightarrow>
          (case get_child_count d of
             Inl e \<Rightarrow> Inl e
           | Inr n \<Rightarrow>
               (case children_loop d (py_range n) apps of
                  Inl e \<Rightarrow> Inl e
                | Inr apps' \<Rightarrow> desktops_loop a ixs apps')))"

definition list_error :: "exn \<Rightarrow> effect" where
  "list_error e =
     Log ERROR (''Erreur lors de la recuperation de la liste des applications: '' @ exn_str e)"

definition get_application_list_try :: "atspi \<Rightarrow> exn + pyval list" where
  "get_application_list_try a =
     (case get_desktop_count a of
        Inl e \<Rightarrow> Inl e
      | Inr n \<Rightarrow> desktops_loop a (py_range n) [])"

definition AccessibilityManager_get_application_list ::
  "atspi \<Rightarrow> AccessibilityManager \<Rightarrow> pyval list \<times> effect list" where
  "AccessibilityManager_get_application_list a m =
     (case get_application_list_try a of
        Inl e \<Rightarrow> ([], [list_error e])
      | Inr apps \<Rightarrow> (apps, []))"

definition listeners_of :: "AccessibilityManager \<Rightarrow> string \<Rightarrow> handler list" where
  "listeners_of m event_type =
     (case map_of (event_listeners m) event_type of None \<Rightarrow> [] | Some ls \<Rightarrow> ls)"

text \<open>
  \<^verbatim>\<open>register_event_listener\<close>: the callback is appended first, then registered at the
  service. \<open>RegisterKeystroke\<close> records that the service was called.
\<close>

definition register_event_listener ::
  "atspi \<Rightarrow> string \<Rightarrow> handler \<Rightarrow> AccessibilityManager \<Rightarrow>
   bool \<times> AccessibilityManager \<times> effect list" where
  "register_event_listener a event_type callback m =
     (let m1 = m\<lparr>event_listeners :=
                  AList.update event_type (listeners_of m event_type @ [callback])
                    (event_listeners m)\<rparr>
      in case register_keystroke_listener a callback of
           None \<Rightarrow> (True, m1, [RegisterKeystroke callback])
         | Some e \<Rightarrow>
             (False, m1,
              [RegisterKeystroke callback,
               Log ERROR (''Erreur lors de l'enregistrement de l'ecouteur d'evenements: ''
                          @ exn_str e)]))"

definition unregister_event_listener ::
  "atspi \<Rightarrow> string \<Rightarrow> handler \<Rightarrow> AccessibilityManager \<Rightarrow>
   bool \<times> AccessibilityManager \<times> effect list" where
  "unregister_event_listener a event_type callback m =
     (case map_of (event_listeners m) event_type of
        None \<Rightarrow> (False, m, [])
      | Some ls \<Rightarrow>
          if callback \<in> set ls then
            let m1 = m\<lparr>event_listeners :=
                        AList.update event_type (remove1 callback ls) (event_listeners m)\<rparr>
            in case deregister_keystroke_listener a callback of
                 None \<Rightarrow> (True, m1, [DeregisterKeystroke callback])
               | Some e \<Rightarrow>
                   (False, m1,
                    [DeregisterKeystroke callback,
                     Log ERROR (''Erreur lors du desenregistrement de l'ecouteur d'evenements: ''
                                @ exn_str e)])
          else (False, m, []))"

text \<open>The two nested loops of \<^verbatim>\<open>cleanup\<close> over the listeners, in dictionary order.\<close>

fun deregister_all :: "atspi \<Rightarrow> handler list \<Rightarrow> effect list \<times> exn option" where
  "deregister_all a [] = ([], None)"
| "deregister_all a (l # ls) =
     (case deregister_keystroke_listener a l of
        Some e \<Rightarrow> ([DeregisterKeystroke l], Some e)
      | None \<Rightarrow>
          (case deregister_all a ls of (tr, r) \<Rightarrow> (DeregisterKeystroke l # tr, r)))"

definition cleanup_error :: "exn \<Rightarrow> effect" where
  "cleanup_error e =
     Log ERROR (''Erreur lors du nettoyage du gestionnaire d'accessibilite: '' @ exn_str e)"

definition AccessibilityManager_cleanup ::
  "atspi \<Rightarrow> AccessibilityManager \<Rightarrow> AccessibilityManager \<times> effect list" where
  "AccessibilityManager_cleanup a m =
     (case deregister_all a (concat (map snd (event_listeners m))) of
        (tr, Some e) \<Rightarrow> (m, tr @ [cleanup_error e])
      | (tr, None) \<Rightarrow>
          let m1 = m\<lparr>event_listeners := []\<rparr> in
          (case shutdown a of
             Some e \<Rightarrow> (m1, tr @ [Shutdown, cleanup_error e])
           | None \<Rightarrow>
               (m1\<lparr>initialized := False, root := None, focused_node := None,
                   braille_display := None\<rparr>,
                tr @ [Shutdown])))"

subsection \<open>The module's functions over its global manager\<close>

text \<open>
  The argument \<open>g\<close> is the module's global \<^verbatim>\<open>_accessibility_manager\<close>: \<open>None\<close> until
  the module's \<^verbatim>\<open>initialize()\<close> has stored a manager in it, which it does before
  calling the manager's own \<^verbatim>\<open>initialize\<close> and whatever that returns.
\<close>

definition not_initialized :: effect where
  "not_initialized = Log ERROR ''Le gestionnaire d'accessibilite n'est pas initialise''"

definition initialize ::
  "atspi \<Rightarrow> bool \<times> AccessibilityManager option \<times> effect list" where
  "initialize a =
     (case AccessibilityManager_initialize a AccessibilityManager_init of
        (ok, m, tr) \<Rightarrow> (ok, Some m, tr))"

definition get_focused_node ::
  "atspi \<Rightarrow> AccessibilityManager option \<Rightarrow> AccessibilityNode option \<times> effect list" where
  "get_focused_node a g =
     (case g of
        None \<Rightarrow> (None, [not_initialized])
      | Some m \<Rightarrow> AccessibilityManager_get_focused_node a m)"

definition get_node_at_point ::
  "atspi \<Rightarrow> AccessibilityManager option \<Rightarrow> int \<Rightarrow> int \<Rightarrow>
   AccessibilityNode option \<times> effect list" where
  "get_node_at_point a g x y =
     (case g of
        None \<Rightarrow> (None, [not_initialized])
      | Some m \<Rightarrow> AccessibilityManager_get_node_at_point a m x y)"

definition get_application_list ::
  "atspi \<Rightarrow> AccessibilityManager option \<Rightarrow> pyval list \<times> effect list" where
  "get_application_list a g =
     (case g of
        None \<Rightarrow> ([], [not_initialized])
      | Some m \<Rightarrow> AccessibilityManager_get_application_list a m)"

subsection \<open>Concrete managers and handlers for the examples\<close>

text \<open>Handler 1 raises an \<^verbatim>\<open>Exception\<close> whenever it is called; every other handler
  returns.\<close>

definition first_raises :: "handler \<Rightarrow> pyval list \<Rightarrow> outcome" where
  "first_raises h args = (if h = 1 then Raises (Exn ''Exception'' ''Erreur de test'') else Returns)"


definition all_return :: "handler \<Rightarrow> pyval list \<Rightarrow> outcome" where
  "all_return h args = Returns"


text \<open>
  Key handlers 1 and 2 for \<^verbatim>\<open>KEY_LEFTCTRL\<close> and \<^verbatim>\<open>KEY_C\<close>, modifier handler 3 for
  \<^verbatim>\<open>KEY_LEFTCTRL\<close>.
\<close>

definition ctrl_c_observers :: InputManager where
  "ctrl_c_observers =
     snd (register_modifier_handler ''KEY_LEFTCTRL'' 3
       (snd (register_key_handler ''KEY_C'' 2
         (snd (register_key_handler ''KEY_LEFTCTRL'' 1 InputManager_init)))))"

text \<open>Gesture handler 9 registered for the chord, key handler 1 for \<^verbatim>\<open>KEY_L\<close>.\<close>

definition lock_gesture :: InputManager where
  "lock_gesture =
     snd (register_gesture_handler ''KEY_LEFTCTRL+KEY_LEFTALT+KEY_L'' 9
       (snd (register_key_handler ''KEY_L'' 1 InputManager_init)))"

text \<open>The handlers that a dispatch can reach: those of the key and modifier tables.\<close>

definition dispatch_handlers :: "InputManager \<Rightarrow> handler set" where
  "dispatch_handlers m =
     \<Union> (set ` ran (key_handlers m)) \<union> \<Union> (set ` ran (modifier_handlers m))"

text \<open>The enumeration returns and at least one of its devices opens and classifies as a
  keyboard.\<close>

definition some_keyboard :: "evdev \<Rightarrow> bool" where
  "some_keyboard lib =
     (case list_devices lib of
        Inl e \<Rightarrow> False
      | Inr paths \<Rightarrow>
          list_ex (\<lambda>p. case open_device lib p of
                          Inl e \<Rightarrow> False
                        | Inr device \<Rightarrow> is_keyboard_device lib device) paths)"

text \<open>
  A service for the examples: one desktop with three applications, the second of which
  raises when asked for its name, and a focused push button.
\<close>

definition widget :: "string \<Rightarrow> Role \<Rightarrow> int \<Rightarrow> Accessible" where
  "widget n r pid =
     \<lparr>get_role_name = Inr (if r = APPLICATION then ''application'' else ''push button''),
      get_name = Inr n, get_description = Inr [], get_state_set = Inr {VISIBLE},
      get_role = Inr r, get_process_id = Inr pid,
      get_text = Inl (Exn ''Error'' ''no text interface''),
      get_actions = Inl (Exn ''AttributeError'' ''get_actions'')\<rparr>"

definition nameless :: Accessible where
  "nameless = (widget [] APPLICATION 202)\<lparr>get_name := Inl (Exn ''Error'' ''name not available'')\<rparr>"

definition desktop0 :: Desktop where
  "desktop0 =
     \<lparr>as_accessible = widget ''main'' (OtherRole 0) 0,
      get_child_count = Inr 3,
      get_child_at_index =
        (\<lambda>j. if j = 0 then Inr (Some (widget ''editor'' APPLICATION 201))
             else if j = 1 then Inr (Some nameless)
             else if j = 2 then Inr (Some (widget ''terminal'' APPLICATION 203))
             else Inr None),
      get_accessible_at_point = (\<lambda>x y. Inr None)\<rparr>"

definition service :: atspi where
  "service =
     \<lparr>init = None,
      get_desktop = (\<lambda>i. if i = 0 then Inr desktop0 else Inl (Exn ''Error'' ''no such desktop'')),
      get_desktop_count = Inr 1,
      get_focused = Inr (Some (widget ''OK'' (OtherRole 1) 201)),
      register_keystroke_listener = (\<lambda>cb. None),
      deregister_keystroke_listener = (\<lambda>cb. None),
      shutdown = None\<rparr>"

text \<open>The same service, refusing every registration of a keystroke listener.\<close>

definition refusing_service :: atspi where
  "refusing_service =
     service\<lparr>register_keystroke_listener := (\<lambda>cb. Some (Exn ''TypeError'' ''register_keystroke_listener''))\<rparr>"

text \<open>The same service with the focus query and the desktop lookup raising.\<close>

definition failing_service :: atspi where
  "failing_service =
     service\<lparr>get_focused := Inl (Exn ''AttributeError'' ''get_focused''),
             get_desktop := (\<lambda>i. Inl (Exn ''Error'' ''service unavailable''))\<rparr>"

text \<open>The node that the constructor builds for the focused push button of \<open>service\<close>.\<close>

definition ok_button :: AccessibilityNode where
  "ok_button =
     \<lparr>accessible = widget ''OK'' (OtherRole 1) 201, role = ''push button'', name = ''OK'',
      description = [], states = {VISIBLE}, children = [], parent = None\<rparr>"

text \<open>The same service while it is not reachable yet: \<^verbatim>\<open>Atspi.init()\<close> raises.\<close>

definition starting_service :: atspi where
  "starting_service = service\<lparr>init := Some (Exn ''Error'' ''service unavailable'')\<rparr>"

section \<open>The key-state invariant\<close>

lemma key_state_inv_init: "key_state_inv lib (key_state InputManager_init)"
  by (simp add: key_state_inv_def InputManager_init_def KeyState_init_def)

lemma update_keys_invariant:
  assumes "key_state_inv lib (key_state m)"
  shows "key_state_inv lib (fst (update_keys lib run keystate event m))"
  using assms
  by (auto simp: key_state_inv_def update_keys_def Let_def)

lemma handle_key_event_invariant:
  assumes "key_state_inv lib (key_state m)"
  shows "key_state_inv lib (key_state (fst (handle_key_event lib run now event m)))"
proof (cases "type event = EV_KEY lib")
  case False
  with assms show ?thesis by (simp add: handle_key_event_def)
next
  case True
  show ?thesis
  proof (cases "categorize lib event")
    case (Inl e)
    with True assms show ?thesis by (simp add: handle_key_event_def)
  next
    case (Inr keystate)
    obtain ks1 tr1 r1 where u: "update_keys lib run keystate event m = (ks1, tr1, r1)"
      by (cases "update_keys lib run keystate event m")
    have "key_state_inv lib ks1"
      using update_keys_invariant [OF assms, of run keystate event] u by simp
    then have "key_state_inv lib (ks1\<lparr>last_key_time := t\<rparr>)" for t
      by (simp add: key_state_inv_def)
    with \<open>key_state_inv lib ks1\<close> True Inr u show ?thesis
      by (auto simp: handle_key_event_def split: option.splits prod.splits)
  qed
qed

lemma process_events_invariant:
  "key_state_inv lib (key_state m) \<Longrightarrow>
   key_state_inv lib (key_state (fst (process_events lib run evs m)))"
proof (induction evs arbitrary: m)
  case Nil
  then show ?case by simp
next
  case (Cons a evs)
  obtain now event where a: "a = (now, event)" by (cases a)
  obtain m1 tr1 r1 where h: "handle_key_event lib run now event m = (m1, tr1, r1)"
    by (cases "handle_key_event lib run now event m")
  have inv1: "key_state_inv lib (key_state m1)"
    using handle_key_event_invariant [OF Cons.prems, of run now event] h by simp
  show ?case
  proof (cases r1)
    case None
    obtain m2 tr2 r2 where p: "process_events lib run evs m1 = (m2, tr2, r2)"
      by (cases "process_events lib run evs m1")
    with Cons.IH [OF inv1] a h None show ?thesis by simp
  next
    case (Some e)
    with inv1 a h show ?thesis by simp
  qed
qed

section \<open>Dispatch: what the trigger methods invoke and emit\<close>

lemma emitted_Nil: "emitted [] = []"
  by (simp add: emitted_def)

lemma emitted_append: "emitted (xs @ ys) = emitted xs @ emitted ys"
  by (simp add: emitted_def)

lemma emitted_Cons_Emit: "emitted (Emit ev # tr) = ev # emitted tr"
  by (simp add: emitted_def)

lemma emitted_Log: "emitted [Log l s] = []"
  by (simp add: emitted_def)



lemma call_handlers_emitted: "emitted (fst (call_handlers run args hs)) = []"
  by (induction hs) (auto simp: emitted_def split: outcome.splits prod.splits)

lemma call_handlers_invoked:
  "x \<in> set (fst (call_handlers run args hs)) \<Longrightarrow> \<exists>h \<in> set hs. x = Invoke h args"
  by (induction hs arbitrary: x) (auto split: outcome.splits prod.splits)

lemma call_handlers_no_base:
  "raises_exceptions_only run \<Longrightarrow> snd (call_handlers run args hs) \<noteq> RaisesBase e"
  by (induction hs) (auto simp: raises_exceptions_only_def split: outcome.splits prod.splits)

lemma trigger_handlers_cases:
  obtains (key_error) "KEY lib k = None"
      "trigger_handlers lib run table msg k args = ([Log ERROR (msg @ str_int k)], None)"
  | (unhashable) ns where "KEY lib k = Some (NameList ns)"
      "trigger_handlers lib run table msg k args =
         ([Log ERROR (msg @ ''unhashable type: 'list'' @ [CHR 0x27])], None)"
  | (no_handlers) "trigger_handlers lib run table msg k args = ([], None)"
  | (called) nm hs where "KEY lib k = Some (Name nm)" "table nm = Some hs"
      "trigger_handlers lib run table msg k args =
         (case call_handlers run args hs of
            (tr, Returns) \<Rightarrow> (tr, None)
          | (tr, Raises e) \<Rightarrow> (tr @ [Log ERROR (msg @ exn_str e)], None)
          | (tr, RaisesBase e) \<Rightarrow> (tr, Some e))"
proof (cases "KEY lib k")
  case None
  then show ?thesis using key_error by (simp add: trigger_handlers_def)
next
  case (Some kn)
  show ?thesis
  proof (cases kn)
    case (Name nm)
    show ?thesis
    proof (cases "table nm")
      case None
      with Some Name show ?thesis using no_handlers by (simp add: trigger_handlers_def)
    next
      case hs: (Some hs)
      with Some Name show ?thesis using called [of nm hs] by (simp add: trigger_handlers_def)
    qed
  next
    case (NameList ns)
    with Some show ?thesis using unhashable by (simp add: trigger_handlers_def)
  next
    case (NameTuple ns)
    with Some show ?thesis using no_handlers by (simp add: trigger_handlers_def)
  qed
qed

lemma trigger_handlers_emitted:
  "emitted (fst (trigger_handlers lib run table msg k args)) = []"
proof (cases rule: trigger_handlers_cases [of lib k run table msg args])
  case (called nm hs)
  obtain tr r where c: "call_handlers run args hs = (tr, r)"
    by (cases "call_handlers run args hs")
  then have "emitted tr = []"
    using call_handlers_emitted [of run args hs] by simp
  with called c show ?thesis
    by (cases r) (simp_all add: emitted_append emitted_Log)
qed (simp_all add: emitted_Log emitted_Nil)

lemma trigger_handlers_invoked:
  assumes "Invoke h args' \<in> set (fst (trigger_handlers lib run table msg k args))"
  shows "h \<in> \<Union> (set ` ran table)"
proof (cases rule: trigger_handlers_cases [of lib k run table msg args])
  case (called nm hs)
  obtain tr r where c: "call_handlers run args hs = (tr, r)"
    by (cases "call_handlers run args hs")
  have "Invoke h args' \<in> set tr"
    using assms called c by (cases r) simp_all
  then have "Invoke h args' \<in> set (fst (call_handlers run args hs))"
    using c by simp
  from call_handlers_invoked [OF this] have "h \<in> set hs" by auto
  with called show ?thesis by (auto simp: ran_def)
qed (use assms in simp_all)

lemma trigger_handlers_no_base:
  assumes "raises_exceptions_only run"
  shows "snd (trigger_handlers lib run table msg k args) = None"
proof (cases rule: trigger_handlers_cases [of lib k run table msg args])
  case (called nm hs)
  obtain tr r where c: "call_handlers run args hs = (tr, r)"
    by (cases "call_handlers run args hs")
  with call_handlers_no_base [OF assms, of args hs] have "\<And>e. r \<noteq> RaisesBase e" by simp
  with called c show ?thesis by (cases r) auto
qed simp_all



lemma emit_in_trigger_handlers:
  "Emit ev \<notin> set (fst (trigger_handlers lib run table msg k args))"
proof
  assume "Emit ev \<in> set (fst (trigger_handlers lib run table msg k args))"
  then have "ev \<in> set (emitted (fst (trigger_handlers lib run table msg k args)))"
    by (auto simp: emitted_def)
  then show False by (simp add: trigger_handlers_emitted)
qed

lemma trigger_key_handlers_eq:
  "trigger_key_handlers lib run m k =
     (Emit (KeyDown k) # fst (trigger_handlers lib run (key_handlers m)
        ''Erreur lors du declenchement des gestionnaires de touche: '' k []),
      snd (trigger_handlers lib run (key_handlers m)
        ''Erreur lors du declenchement des gestionnaires de touche: '' k []))"
  by (simp add: trigger_key_handlers_def split: prod.splits)

lemma trigger_modifier_handlers_eq:
  "trigger_modifier_handlers lib run m k b =
     (Emit (ModifierChanged k b) # fst (trigger_handlers lib run (modifier_handlers m)
        ''Erreur lors du declenchement des gestionnaires de modificateur: '' k [PBool b]),
      snd (trigger_handlers lib run (modifier_handlers m)
        ''Erreur lors du declenchement des gestionnaires de modificateur: '' k [PBool b]))"
  by (simp add: trigger_modifier_handlers_def split: prod.splits)

section \<open>One key event, and a sequence of them\<close>

lemma handle_key_event_down:
  assumes "categorize lib (down lib k) = Inr (key_down lib)" and "raises_exceptions_only run"
  shows "fst (handle_key_event lib run now (down lib k) m) =
           m\<lparr>key_state := (key_state m)\<lparr>pressed_keys := insert k (pressed_keys (key_state m)),
               modifiers := (if k \<in> get_modifier_codes lib then insert k (modifiers (key_state m))
                             else modifiers (key_state m)),
               last_key_time := now * 1000\<rparr>\<rparr>"
    and "emitted (fst (snd (handle_key_event lib run now (down lib k) m))) =
           (if k \<in> get_modifier_codes lib then [ModifierChanged k True, KeyDown k] else [KeyDown k])"
    and "snd (snd (handle_key_event lib run now (down lib k) m)) = None"
  using assms(1) trigger_handlers_no_base [OF assms(2)]
  by (simp_all add: handle_key_event_def update_keys_def down_def Let_def
      trigger_modifier_handlers_eq trigger_key_handlers_eq check_gestures_def
      emitted_append emitted_Cons_Emit trigger_handlers_emitted emitted_Nil)

lemma handle_key_event_up:
  assumes "categorize lib (up lib k) = Inr (key_up lib)" and "key_up lib \<noteq> key_down lib"
    and "raises_exceptions_only run"
  shows "fst (handle_key_event lib run now (up lib k) m) =
           m\<lparr>key_state := (key_state m)\<lparr>pressed_keys := pressed_keys (key_state m) - {k},
               modifiers := (if k \<in> get_modifier_codes lib then modifiers (key_state m) - {k}
                             else modifiers (key_state m)),
               last_key_time := 0\<rparr>\<rparr>"
    and "emitted (fst (snd (handle_key_event lib run now (up lib k) m))) =
           (if k \<in> get_modifier_codes lib then [ModifierChanged k False] else [])"
    and "snd (snd (handle_key_event lib run now (up lib k) m)) = None"
  using assms(1,2) trigger_handlers_no_base [OF assms(3)]
  by (simp_all add: handle_key_event_def update_keys_def up_def Let_def
      trigger_modifier_handlers_eq trigger_key_handlers_eq check_gestures_def
      emitted_append emitted_Cons_Emit trigger_handlers_emitted emitted_Nil)

lemma process_events_Cons:
  "process_events lib run ((now, ev) # evs) m =
     (case snd (snd (handle_key_event lib run now ev m)) of
        Some e \<Rightarrow> handle_key_event lib run now ev m
      | None \<Rightarrow>
          (fst (process_events lib run evs (fst (handle_key_event lib run now ev m))),
           fst (snd (handle_key_event lib run now ev m)) @
           fst (snd (process_events lib run evs (fst (handle_key_event lib run now ev m)))),
           snd (snd (process_events lib run evs (fst (handle_key_event lib run now ev m))))))"
  by (simp split: prod.splits option.splits)

lemma handle_key_event_effects:
  assumes "x \<in> set (fst (snd (handle_key_event lib run now ev m)))"
  shows "(\<exists>l s. x = Log l s) \<or> x = Emit (KeyDown (code ev)) \<or> (\<exists>b. x = Emit (ModifierChanged (code ev) b))
         \<or> x \<in> set (fst (trigger_handlers lib run (key_handlers m)
                ''Erreur lors du declenchement des gestionnaires de touche: '' (code ev) []))
         \<or> (\<exists>b. x \<in> set (fst (trigger_handlers lib run (modifier_handlers m)
                ''Erreur lors du declenchement des gestionnaires de modificateur: '' (code ev)
                [PBool b])))"
  using assms
  by (auto simp: handle_key_event_def update_keys_def Let_def trigger_key_handlers_eq
      trigger_modifier_handlers_eq check_gestures_def
      split: if_splits sum.splits option.splits prod.splits)

lemma handle_key_event_invoked:
  assumes "Invoke h args \<in> set (fst (snd (handle_key_event lib run now ev m)))"
  shows "h \<in> dispatch_handlers m"
  using handle_key_event_effects [OF assms] trigger_handlers_invoked
  by (auto simp: dispatch_handlers_def)

lemma handle_key_event_no_gesture:
  "Emit (Gesture g) \<notin> set (fst (snd (handle_key_event lib run now ev m)))"
  using handle_key_event_effects [of "Emit (Gesture g)" lib run now ev m]
    emit_in_trigger_handlers
  by auto

lemma handle_key_event_tables:
  "key_handlers (fst (handle_key_event lib run now ev m)) = key_handlers m"
  "modifier_handlers (fst (handle_key_event lib run now ev m)) = modifier_handlers m"
  "gesture_handlers (fst (handle_key_event lib run now ev m)) = gesture_handlers m"
  by (auto simp: handle_key_event_def Let_def split: if_splits sum.splits prod.splits option.splits)

lemma handle_key_event_dispatch_handlers:
  "dispatch_handlers (fst (handle_key_event lib run now ev m)) = dispatch_handlers m"
  by (simp add: dispatch_handlers_def handle_key_event_tables)

lemma process_events_invoked:
  "Invoke h args \<in> set (fst (snd (process_events lib run evs m))) \<Longrightarrow> h \<in> dispatch_handlers m"
proof (induction evs arbitrary: m)
  case Nil
  then show ?case by simp
next
  case (Cons a evs)
  obtain now ev where a: "a = (now, ev)" by (cases a)
  from Cons.prems have
    "Invoke h args \<in> set (fst (snd (handle_key_event lib run now ev m)))
     \<or> Invoke h args \<in> set (fst (snd (process_events lib run evs
           (fst (handle_key_event lib run now ev m)))))"
    by (auto simp: a process_events_Cons simp del: process_events.simps(2) split: option.splits)
  then show ?case
    using handle_key_event_invoked Cons.IH handle_key_event_dispatch_handlers by blast
qed

lemma process_events_no_gesture:
  "Emit (Gesture g) \<notin> set (fst (snd (process_events lib run evs m)))"
proof (induction evs arbitrary: m)
  case Nil
  then show ?case by simp
next
  case (Cons a evs)
  obtain now ev where a: "a = (now, ev)" by (cases a)
  show ?case
    using Cons.IH handle_key_event_no_gesture
    by (auto simp: a process_events_Cons simp del: process_events.simps(2) split: option.splits)
qed

lemma reads_key_events_linux: "reads_key_events (linux_evdev paths)"
  by (simp add: reads_key_events_def linux_evdev_def down_def up_def)

lemma linux_modifier_codes:
  "get_modifier_codes (linux_evdev paths) = {42, 54, 29, 97, 56, 100, 125, 126}"
  by (simp add: get_modifier_codes_def linux_evdev_def)


lemma all_return_only: "raises_exceptions_only all_return"
  by (simp add: raises_exceptions_only_def all_return_def)

lemma first_raises_only: "raises_exceptions_only first_raises"
  by (simp add: raises_exceptions_only_def first_raises_def)

section \<open>Claims about the input capture engine\<close>

text \<open>
  C1. From a freshly constructed \<^verbatim>\<open>KeyState\<close>, after any finite sequence of events has
  gone through \<^verbatim>\<open>_handle_key_event\<close>, \<open>modifiers \<subseteq> pressed_keys\<close>. The sequence is
  arbitrary, so the inclusion holds after each event of a run; the events are arbitrary
  too (key-down, key-up, hold, other types, events \<^verbatim>\<open>categorize\<close> rejects), and so are
  the library, the registered handlers and what they do, an exception that leaves the
  method included: both sets are updated before any handler is called.
\<close>

theorem key_state_invariant:
  "modifiers (key_state (fst (process_events lib run evs (m\<lparr>key_state := KeyState_init\<rparr>))))
     \<subseteq> pressed_keys (key_state (fst (process_events lib run evs (m\<lparr>key_state := KeyState_init\<rparr>))))"
proof -
  have "key_state_inv lib (key_state (m\<lparr>key_state := KeyState_init\<rparr>))"
    by (simp add: key_state_inv_def KeyState_init_def)
  from process_events_invariant [OF this] show ?thesis
    by (simp add: key_state_inv_def)
qed




text \<open>
  C3, as the code has it. \<^verbatim>\<open>_handle_key_event\<close> calls \<^verbatim>\<open>_trigger_key_handlers\<close> on every
  key-down, after the modifier bookkeeping: a key-down of a modifier code emits
  \<open>ModifierChanged\<close> and then \<open>KeyDown\<close> for that code. The scenario emits four events,
  and leaves \<open>pressed_keys\<close> and \<open>modifiers\<close> empty. The handlers are any that return or
  raise an \<^verbatim>\<open>Exception\<close>; one that ends the loop would leave the scenario unfinished.
\<close>

theorem ctrl_c_scenario:
  assumes "reads_key_events lib" and "c \<notin> get_modifier_codes lib"
    and "raises_exceptions_only run"
  shows "emitted (fst (snd (process_events lib run
            [(t1, down lib (KEY_LEFTCTRL lib)), (t2, down lib c), (t3, up lib c),
             (t4, up lib (KEY_LEFTCTRL lib))] (m\<lparr>key_state := KeyState_init\<rparr>))))
         = [ModifierChanged (KEY_LEFTCTRL lib) True, KeyDown (KEY_LEFTCTRL lib), KeyDown c,
            ModifierChanged (KEY_LEFTCTRL lib) False]
       \<and> pressed_keys (key_state (fst (process_events lib run
            [(t1, down lib (KEY_LEFTCTRL lib)), (t2, down lib c), (t3, up lib c),
             (t4, up lib (KEY_LEFTCTRL lib))] (m\<lparr>key_state := KeyState_init\<rparr>)))) = {}
       \<and> modifiers (key_state (fst (process_events lib run
            [(t1, down lib (KEY_LEFTCTRL lib)), (t2, down lib c), (t3, up lib c),
             (t4, up lib (KEY_LEFTCTRL lib))] (m\<lparr>key_state := KeyState_init\<rparr>)))) = {}"
proof -
  have d: "\<And>k. categorize lib (down lib k) = Inr (key_down lib)"
    and u: "\<And>k. categorize lib (up lib k) = Inr (key_up lib)"
    and ne: "key_up lib \<noteq> key_down lib"
    using assms(1) by (simp_all add: reads_key_events_def)
  have ctrl: "KEY_LEFTCTRL lib \<in> get_modifier_codes lib"
    by (simp add: get_modifier_codes_def)
  have cne: "c \<noteq> KEY_LEFTCTRL lib" using assms(2) ctrl by auto
  show ?thesis
    using assms(2) ctrl cne
    by (simp add: process_events_Cons handle_key_event_down [OF d assms(3)]
        handle_key_event_up [OF u ne assms(3)] KeyState_init_def emitted_append
        del: process_events.simps(2))
qed

text \<open>
  The theorem at the Linux codes: 29 is \<^verbatim>\<open>KEY_LEFTCTRL\<close>, 46 is \<^verbatim>\<open>KEY_C\<close>.
\<close>

theorem ctrl_c_scenario_witness:
  "reads_key_events (linux_evdev []) \<and> 46 \<notin> get_modifier_codes (linux_evdev [])
   \<and> raises_exceptions_only all_return
   \<and> emitted (fst (snd (process_events (linux_evdev []) all_return
            [(1, down (linux_evdev []) 29), (2, down (linux_evdev []) 46),
             (3, up (linux_evdev []) 46), (4, up (linux_evdev []) 29)] ctrl_c_observers)))
         = [ModifierChanged 29 True, KeyDown 29, KeyDown 46, ModifierChanged 29 False]"
proof -
  have a: "reads_key_events (linux_evdev [])" by (rule reads_key_events_linux)
  have b: "46 \<notin> get_modifier_codes (linux_evdev [])" by (simp add: linux_modifier_codes)
  have k: "KEY_LEFTCTRL (linux_evdev []) = 29" by (simp add: linux_evdev_def)
  have m: "ctrl_c_observers\<lparr>key_state := KeyState_init\<rparr> = ctrl_c_observers"
    by (simp add: ctrl_c_observers_def register_key_handler_def register_modifier_handler_def
        InputManager_init_def)
  show ?thesis
    using ctrl_c_scenario [OF a b all_return_only, of 1 2 3 4 ctrl_c_observers] a b all_return_only
    by (simp add: k m)
qed

text \<open>
  C3 as stated fails: with a key handler (1) and a modifier handler (3) registered for
  \<^verbatim>\<open>KEY_LEFTCTRL\<close> and a key handler (2) for \<^verbatim>\<open>KEY_C\<close>, the key-down of the modifier
  invokes the key handler 1 as well, so the run shows four events and not three.
\<close>

theorem ctrl_c_observed:
  "fst (snd (process_events (linux_evdev []) all_return
      [(1, down (linux_evdev []) 29), (2, down (linux_evdev []) 46),
       (3, up (linux_evdev []) 46), (4, up (linux_evdev []) 29)] ctrl_c_observers))
   = [Emit (ModifierChanged 29 True), Invoke 3 [PBool True], Emit (KeyDown 29), Invoke 1 [],
      Emit (KeyDown 46), Invoke 2 [], Emit (ModifierChanged 29 False), Invoke 3 [PBool False]]"
  by (simp add: handle_key_event_def update_keys_def Let_def down_def up_def linux_evdev_def
      linux_KEY_def get_modifier_codes_def trigger_modifier_handlers_def trigger_key_handlers_def
      trigger_handlers_def check_gestures_def ctrl_c_observers_def register_key_handler_def
      register_modifier_handler_def append_handler_def InputManager_init_def all_return_def)

text \<open>
  C4, as the code has it. \<^verbatim>\<open>_check_gestures\<close> does nothing, and nothing else reads
  \<^verbatim>\<open>gesture_handlers\<close>: no run emits a gesture event, and every handler a run invokes
  is registered in the key or the modifier table. A handler registered for a gesture only
  is never invoked.
\<close>

theorem no_gesture_dispatch:
  "Emit (Gesture g) \<notin> set (fst (snd (process_events lib run evs m)))
   \<and> check_gestures m = []
   \<and> (Invoke h args \<in> set (fst (snd (process_events lib run evs m)))
        \<longrightarrow> h \<in> dispatch_handlers m)"
  using process_events_no_gesture process_events_invoked
  by (simp add: check_gestures_def)

text \<open>
  The theorem at a manager with gesture handler 9 and key handler 1 for \<^verbatim>\<open>KEY_L\<close>: the
  key-down of L invokes handler 1, which is in the key table.
\<close>

theorem no_gesture_dispatch_witness:
  "Invoke 1 [] \<in> set (fst (snd (process_events (linux_evdev []) all_return
      [(1, down (linux_evdev []) 38)] lock_gesture)))
   \<and> 1 \<in> dispatch_handlers lock_gesture
   \<and> Emit (Gesture ''KEY_LEFTCTRL+KEY_LEFTALT+KEY_L'') \<notin> set (fst (snd (process_events
      (linux_evdev []) all_return [(1, down (linux_evdev []) 38)] lock_gesture)))"
proof -
  have a: "Invoke 1 [] \<in> set (fst (snd (process_events (linux_evdev []) all_return
      [(1, down (linux_evdev []) 38)] lock_gesture)))"
    by (simp add: handle_key_event_def update_keys_def Let_def down_def linux_evdev_def
      linux_KEY_def get_modifier_codes_def trigger_key_handlers_def
      trigger_handlers_def check_gestures_def lock_gesture_def register_key_handler_def
      register_gesture_handler_def append_handler_def InputManager_init_def all_return_def)
  show ?thesis
    using no_gesture_dispatch [of "''KEY_LEFTCTRL+KEY_LEFTALT+KEY_L''" "linux_evdev []" all_return
        "[(1, down (linux_evdev []) 38)]" lock_gesture 1 "[]"] a
    by blast
qed

text \<open>
  C4 as stated fails: with handler 9 registered for the chord, pressing Left Ctrl (29),
  Left Alt (56) and L (38) leaves all three held and the run holds no gesture event and
  no invocation of handler 9.
\<close>

theorem chord_trace:
  "fst (snd (process_events (linux_evdev []) all_return
      [(1, down (linux_evdev []) 29), (2, down (linux_evdev []) 56),
       (3, down (linux_evdev []) 38)] lock_gesture))
   = [Emit (ModifierChanged 29 True), Emit (KeyDown 29), Emit (ModifierChanged 56 True),
      Emit (KeyDown 56), Emit (KeyDown 38), Invoke 1 []]
   \<and> gesture_handlers lock_gesture ''KEY_LEFTCTRL+KEY_LEFTALT+KEY_L'' = Some [9]
   \<and> pressed_keys (key_state (fst (process_events (linux_evdev []) all_return
      [(1, down (linux_evdev []) 29), (2, down (linux_evdev []) 56),
       (3, down (linux_evdev []) 38)] lock_gesture))) = {29, 56, 38}"
  by (simp add: handle_key_event_def update_keys_def Let_def down_def up_def linux_evdev_def
      linux_KEY_def get_modifier_codes_def trigger_modifier_handlers_def trigger_key_handlers_def
      trigger_handlers_def check_gestures_def lock_gesture_def register_key_handler_def
      register_gesture_handler_def append_handler_def InputManager_init_def all_return_def
      KeyState_init_def insert_commute)

section \<open>Initialization of the input capture engine\<close>

lemma kbd0_is_keyboard: "is_keyboard_device (linux_evdev paths) kbd0"
  by (simp add: is_keyboard_device_def kbd0_def linux_evdev_def)

lemma some_keyboard_linux:
  "some_keyboard (linux_evdev [''/dev/input/event0'', ''/dev/input/event1''])"
  using kbd0_is_keyboard
  by (simp add: some_keyboard_def) (simp add: linux_evdev_def)

lemma get_config_three:
  "get_config [a, b, c] =
     Inl (Exn ''TypeError'' ''get_config() takes 0 positional arguments but 3 were given'')"
  by (simp add: get_config_def str_nat.simps digit_char_def)

lemma initialize_never_succeeds: "fst (InputManager_initialize lib m) = False"
  by (simp add: InputManager_initialize_def config_int_def get_config_three)

text \<open>
  C7 on the code. \<^verbatim>\<open>InputManager.initialize\<close> returns failure although an enumerated
  device classifies as a keyboard: its first configuration lookup raises (see C9), and
  the method's \<^verbatim>\<open>except\<close> branch returns \<^verbatim>\<open>False\<close> before any device is looked at.
\<close>

theorem initialize_fails_with_keyboard:
  "some_keyboard (linux_evdev [''/dev/input/event0'', ''/dev/input/event1''])
   \<and> fst (InputManager_initialize
            (linux_evdev [''/dev/input/event0'', ''/dev/input/event1'']) InputManager_init)
       = False"
  using some_keyboard_linux
  by (simp add: InputManager_initialize_def config_int_def get_config_three)

text \<open>
  C9 on the code. The callers pass (section, key, default) to \<^verbatim>\<open>config.get_config\<close>,
  which takes no parameter: the first lookup raises \<^verbatim>\<open>TypeError\<close>. The input manager
  fails before it looks at any device and leaves the manager as constructed (the repeat
  delay and rate keep the constructor's 500 and 30); the accessibility manager fails at
  its braille lookup.
\<close>

theorem config_lookup_raises:
  "get_config [PStr ''keyboard'', PStr ''key_repeat_delay'', PInt 500] =
     Inl (Exn ''TypeError'' ''get_config() takes 0 positional arguments but 3 were given'')
   \<and> InputManager_initialize
        (linux_evdev [''/dev/input/event0'', ''/dev/input/event1'']) InputManager_init
      = (False, InputManager_init,
         [init_error (Exn ''TypeError''
            ''get_config() takes 0 positional arguments but 3 were given'')])
   \<and> fst (AccessibilityManager_initialize service AccessibilityManager_init) = False
   \<and> snd (snd (AccessibilityManager_initialize service AccessibilityManager_init)) =
         [a11y_init_error (Exn ''TypeError''
            ''get_config() takes 0 positional arguments but 3 were given'')]"
  by (simp add: InputManager_initialize_def config_int_def
      get_config_three AccessibilityManager_initialize_def
      service_def desktop0_def widget_def AccessibilityNode_init_def Let_def)

section \<open>Claims about the accessibility client\<close>

lemma comprehension_all: "comprehension (map Inr ns) = Inr ns"
  by (induction ns) auto

lemma comprehension_some_raises:
  "i < length acts \<Longrightarrow> isl (acts ! i) \<Longrightarrow> isl (comprehension acts)"
proof (induction acts arbitrary: i)
  case Nil
  then show ?case by simp
next
  case (Cons x xs)
  show ?case
  proof (cases i)
    case 0
    with Cons.prems show ?thesis by (auto simp: isl_def)
  next
    case (Suc j)
    with Cons.prems have "isl (comprehension xs)" using Cons.IH [of j] by simp
    then show ?thesis by (auto simp: isl_def split: sum.splits)
  qed
qed

text \<open>
  C5, as the code has it: what each of the four queries returns and logs, case by case.
  None of them raises. The focus lookup and the hit test return the node built from the
  accessible the service reports (its role name, name, description and states), and
  \<^verbatim>\<open>None\<close> when it reports none; when the service or the construction of the node
  raises they return \<^verbatim>\<open>None\<close> and log one error carrying the exception's text. Text
  extraction returns the text of the text interface, and the empty string when there is
  no interface or a call raises; action listing returns the action names, and the empty
  list when a call raises; these two log nothing in any case. The module's node queries
  return \<^verbatim>\<open>None\<close> and log when the module holds no manager; when it holds one,
  initialized or not, they are the manager's queries.
\<close>

theorem queries_degrade:
  "(get_role_name acc = Inr r \<and> get_name acc = Inr n \<and> get_description acc = Inr dsc
      \<and> get_state_set acc = Inr st \<longrightarrow>
      AccessibilityNode_init acc =
        Inr \<lparr>accessible = acc, role = r, name = n, description = dsc, states = st,
             children = [], parent = None\<rparr>)
   \<and> (get_role_name acc = Inl e \<longrightarrow> AccessibilityNode_init acc = Inl e)
   \<and> (get_role_name acc = Inr r \<and> get_name acc = Inl e \<longrightarrow> AccessibilityNode_init acc = Inl e)
   \<and> (get_role_name acc = Inr r \<and> get_name acc = Inr n \<and> get_description acc = Inl e \<longrightarrow>
        AccessibilityNode_init acc = Inl e)
   \<and> (get_role_name acc = Inr r \<and> get_name acc = Inr n \<and> get_description acc = Inr dsc
        \<and> get_state_set acc = Inl e \<longrightarrow> AccessibilityNode_init acc = Inl e)
   \<and> focused_error e =
        Log ERROR (''Erreur lors de la recuperation du noeud focalise: '' @ exn_str e)
   \<and> point_error x y e =
        Log ERROR (''Erreur lors de la recuperation du noeud a la position ('' @ str_int x
                   @ '', '' @ str_int y @ ''): '' @ exn_str e)
   \<and> not_initialized = Log ERROR ''Le gestionnaire d'accessibilite n'est pas initialise''
   \<and> (get_focused a = Inl e \<longrightarrow>
        AccessibilityManager_get_focused_node a m = (None, [focused_error e]))
   \<and> (get_focused a = Inr None \<longrightarrow> AccessibilityManager_get_focused_node a m = (None, []))
   \<and> (get_focused a = Inr (Some acc) \<and> AccessibilityNode_init acc = Inl e \<longrightarrow>
        AccessibilityManager_get_focused_node a m = (None, [focused_error e]))
   \<and> (get_focused a = Inr (Some acc) \<and> AccessibilityNode_init acc = Inr node \<longrightarrow>
        AccessibilityManager_get_focused_node a m = (Some node, []))
   \<and> (get_desktop a 0 = Inl e \<longrightarrow>
        AccessibilityManager_get_node_at_point a m x y = (None, [point_error x y e]))
   \<and> (get_desktop a 0 = Inr d \<and> get_accessible_at_point d x y = Inl e \<longrightarrow>
        AccessibilityManager_get_node_at_point a m x y = (None, [point_error x y e]))
   \<and> (get_desktop a 0 = Inr d \<and> get_accessible_at_point d x y = Inr None \<longrightarrow>
        AccessibilityManager_get_node_at_point a m x y = (None, []))
   \<and> (get_desktop a 0 = Inr d \<and> get_accessible_at_point d x y = Inr (Some acc)
        \<and> AccessibilityNode_init acc = Inl e \<longrightarrow>
        AccessibilityManager_get_node_at_point a m x y = (None, [point_error x y e]))
   \<and> (get_desktop a 0 = Inr d \<and> get_accessible_at_point d x y = Inr (Some acc)
        \<and> AccessibilityNode_init acc = Inr node \<longrightarrow>
        AccessibilityManager_get_node_at_point a m x y = (Some node, []))
   \<and> (get_text (accessible nd) = Inl e \<longrightarrow> AccessibilityNode_get_text nd = ('''', []))
   \<and> (get_text (accessible nd) = Inr None \<longrightarrow> AccessibilityNode_get_text nd = ('''', []))
   \<and> (get_text (accessible nd) = Inr (Some (Inl e)) \<longrightarrow>
        AccessibilityNode_get_text nd = ('''', []))
   \<and> (get_text (accessible nd) = Inr (Some (Inr txt)) \<longrightarrow>
        AccessibilityNode_get_text nd = (txt, []))
   \<and> (get_actions (accessible nd) = Inl e \<longrightarrow> AccessibilityNode_get_actions nd = ([], []))
   \<and> (get_actions (accessible nd) = Inr acts \<and> i < length acts \<and> isl (acts ! i) \<longrightarrow>
        AccessibilityNode_get_actions nd = ([], []))
   \<and> (get_actions (accessible nd) = Inr (map Inr ns) \<longrightarrow>
        AccessibilityNode_get_actions nd = (ns, []))
   \<and> get_focused_node a None = (None, [not_initialized])
   \<and> get_node_at_point a None x y = (None, [not_initialized])
   \<and> get_focused_node a (Some m) = AccessibilityManager_get_focused_node a m
   \<and> get_node_at_point a (Some m) x y = AccessibilityManager_get_node_at_point a m x y
   \<and> (get_focused a = Inr (Some acc) \<and> AccessibilityNode_init acc = Inr node \<longrightarrow>
        get_focused_node a (Some m) = (Some node, []))
   \<and> (get_focused a = Inl e \<longrightarrow> get_focused_node a (Some m) = (None, [focused_error e]))"
proof -
  have act: "get_actions (accessible nd) = Inr acts \<Longrightarrow> i < length acts \<Longrightarrow> isl (acts ! i)
      \<Longrightarrow> AccessibilityNode_get_actions nd = ([], [])"
    using comprehension_some_raises [of i acts]
    by (auto simp: AccessibilityNode_get_actions_def isl_def)
  show ?thesis
    using act
    by (simp add: AccessibilityNode_init_def focused_error_def point_error_def
        not_initialized_def AccessibilityManager_get_focused_node_def
        AccessibilityManager_get_node_at_point_def AccessibilityNode_get_text_def
        AccessibilityNode_get_actions_def comprehension_all get_focused_node_def
        get_node_at_point_def)
qed

text \<open>
  The theorem at a service whose focus query and desktop lookup raise, at a node without
  text and action interface, and at the service that reports a focused push button.
\<close>

theorem queries_degrade_witness:
  "get_focused failing_service = Inl (Exn ''AttributeError'' ''get_focused'')
   \<and> AccessibilityManager_get_focused_node failing_service AccessibilityManager_init
       = (None, [focused_error (Exn ''AttributeError'' ''get_focused'')])
   \<and> get_desktop failing_service 0 = Inl (Exn ''Error'' ''service unavailable'')
   \<and> AccessibilityManager_get_node_at_point failing_service AccessibilityManager_init 10 20
       = (None, [point_error 10 20 (Exn ''Error'' ''service unavailable'')])
   \<and> get_text (accessible ok_button) = Inl (Exn ''Error'' ''no text interface'')
   \<and> AccessibilityNode_get_text ok_button = ('''', [])
   \<and> get_actions (accessible ok_button) = Inl (Exn ''AttributeError'' ''get_actions'')
   \<and> AccessibilityNode_get_actions ok_button = ([], [])
   \<and> get_focused_node failing_service None = (None, [not_initialized])
   \<and> get_focused service = Inr (Some (widget ''OK'' (OtherRole 1) 201))
   \<and> AccessibilityNode_init (widget ''OK'' (OtherRole 1) 201) = Inr ok_button
   \<and> get_focused_node service (Some AccessibilityManager_init) = (Some ok_button, [])
   \<and> get_desktop service 0 = Inr desktop0 \<and> get_accessible_at_point desktop0 10 20 = Inr None
   \<and> AccessibilityManager_get_node_at_point service AccessibilityManager_init 10 20 = (None, [])"
proof -
  have a: "get_focused failing_service = Inl (Exn ''AttributeError'' ''get_focused'')"
    by (simp add: failing_service_def service_def)
  have b: "get_desktop failing_service 0 = Inl (Exn ''Error'' ''service unavailable'')"
    by (simp add: failing_service_def service_def)
  have c: "get_text (accessible ok_button) = Inl (Exn ''Error'' ''no text interface'')"
    by (simp add: ok_button_def widget_def)
  have d: "get_actions (accessible ok_button) = Inl (Exn ''AttributeError'' ''get_actions'')"
    by (simp add: ok_button_def widget_def)
  have f: "get_focused service = Inr (Some (widget ''OK'' (OtherRole 1) 201))"
    "get_desktop service 0 = Inr desktop0" "get_accessible_at_point desktop0 10 20 = Inr None"
    by (simp_all add: service_def desktop0_def)
  have g: "get_role_name (widget ''OK'' (OtherRole 1) 201) = Inr ''push button''"
    "get_name (widget ''OK'' (OtherRole 1) 201) = Inr ''OK''"
    "get_description (widget ''OK'' (OtherRole 1) 201) = Inr []"
    "get_state_set (widget ''OK'' (OtherRole 1) 201) = Inr {VISIBLE}"
    by (simp_all add: widget_def)
  have n: "AccessibilityNode_init (widget ''OK'' (OtherRole 1) 201) = Inr ok_button"
    using queries_degrade [where acc = "widget ''OK'' (OtherRole 1) 201"
        and r = "''push button''" and n = "''OK''" and dsc = "[]" and st = "{VISIBLE}"] g
    by (simp add: ok_button_def)
  show ?thesis
    using queries_degrade [where a = failing_service and e = "Exn ''AttributeError'' ''get_focused''"
        and m = AccessibilityManager_init and x = 10 and y = 20 and nd = ok_button]
      queries_degrade [where a = failing_service and e = "Exn ''Error'' ''service unavailable''"
        and m = AccessibilityManager_init and x = 10 and y = 20 and nd = ok_button]
      queries_degrade [where a = failing_service and e = "Exn ''Error'' ''no text interface''"
        and m = AccessibilityManager_init and x = 10 and y = 20 and nd = ok_button]
      queries_degrade [where a = failing_service and e = "Exn ''AttributeError'' ''get_actions''"
        and m = AccessibilityManager_init and x = 10 and y = 20 and nd = ok_button]
      queries_degrade [where a = service and m = AccessibilityManager_init and x = 10 and y = 20
        and acc = "widget ''OK'' (OtherRole 1) 201" and node = ok_button and d = desktop0]
      a b c d f n
    by simp
qed

text \<open>
  C5 as stated fails twice. After the module's \<^verbatim>\<open>initialize()\<close> has failed because
  the service was not reachable, the global manager exists, and once the service answers
  \<^verbatim>\<open>get_focused_node()\<close> returns the node it reports, not \<^verbatim>\<open>None\<close>. And text
  extraction on a node whose text interface raises returns the empty string with nothing
  logged.
\<close>

theorem query_before_successful_initialize:
  "fst (initialize starting_service) = False
   \<and> get_focused_node service (fst (snd (initialize starting_service))) = (Some ok_button, [])
   \<and> get_text (accessible ok_button) = Inl (Exn ''Error'' ''no text interface'')
   \<and> AccessibilityNode_get_text ok_button = ('''', [])"
  by (simp add: initialize_def AccessibilityManager_initialize_def
      starting_service_def service_def
      widget_def AccessibilityNode_init_def get_focused_node_def
      AccessibilityManager_get_focused_node_def ok_button_def AccessibilityNode_get_text_def)

lemma children_loop_raises:
  assumes "j \<in> set js"
    and "get_child_at_index d j = Inr app" and "isl (app_entry app)"
  shows "isl (children_loop d js apps)"
  using assms
proof (induction js arbitrary: apps)
  case Nil
  then show ?case by simp
next
  case (Cons i js)
  show ?case
  proof (cases "i = j")
    case True
    with Cons.prems show ?thesis by (auto split: sum.splits)
  next
    case False
    with Cons.prems have "j \<in> set js" by simp
    from Cons.IH [OF this Cons.prems(2,3)] show ?thesis
      by (auto split: sum.splits option.splits)
  qed
qed

lemma desktops_loop_raises:
  assumes "i \<in> set ixs"
    and "get_desktop a i = Inr d" and "get_child_count d = Inr c"
    and "\<And>apps. isl (children_loop d (py_range c) apps)"
  shows "isl (desktops_loop a ixs apps)"
  using assms(1)
proof (induction ixs arbitrary: apps)
  case Nil
  then show ?case by simp
next
  case (Cons i' ixs)
  show ?case
  proof (cases "i' = i")
    case True
    with assms(2,3) assms(4) [of apps] show ?thesis by (auto split: sum.splits)
  next
    case False
    with Cons.prems have "i \<in> set ixs" by simp
    from Cons.IH [OF this] show ?thesis
      by (auto split: sum.splits)
  qed
qed

lemma in_py_range: "0 \<le> i \<Longrightarrow> i < n \<Longrightarrow> i \<in> set (py_range n)"
  by (auto simp: py_range_def image_iff intro!: bexI [of _ "nat i"])

lemma app_entry_skips:
  "app_entry app = Inr None \<longleftrightarrow>
     (app = None \<or> (\<exists>acc r. app = Some acc \<and> get_role acc = Inr r \<and> r \<noteq> APPLICATION))"
  by (auto simp: app_entry_def split: option.splits sum.splits)

lemma py_range_1: "py_range 1 = [0]"
  by (simp add: py_range_def)

lemma py_range_3: "py_range 3 = [0, 1, 2]"
proof -
  have "[0..<3] = [0, 1, 2]" by (simp add: upt_rec)
  moreover have "nat 3 = 3" by simp
  ultimately show ?thesis by (simp add: py_range_def)
qed

text \<open>
  C6, as the code has it. The \<^verbatim>\<open>try\<close> of \<^verbatim>\<open>get_application_list\<close> encloses both
  loops. When the name of an application entry raises on resolution, the listing is
  abandoned: the method logs the error and returns the empty list, whatever the other
  entries are.
\<close>

theorem unresolved_entry_aborts_listing:
  assumes "get_desktop_count a = Inr n" and "0 \<le> i" and "i < n"
    and "get_desktop a i = Inr d" and "get_child_count d = Inr c"
    and "0 \<le> j" and "j < c" and "get_child_at_index d j = Inr (Some app)"
    and "get_role app = Inr APPLICATION" and "get_name app = Inl e"
  shows "\<exists>e'. AccessibilityManager_get_application_list a m = ([], [list_error e'])"
proof -
  have "isl (app_entry (Some app))"
    using assms(9,10)
    by (simp add: app_entry_def AccessibilityNode_init_def split: sum.splits)
  then have "\<And>apps. isl (children_loop d (py_range c) apps)"
    using children_loop_raises [OF in_py_range [OF assms(6,7)] assms(8)] by simp
  then have "isl (desktops_loop a (py_range n) [])"
    using desktops_loop_raises [OF in_py_range [OF assms(2,3)] assms(4,5)] by simp
  then have "isl (get_application_list_try a)"
    using assms(1) by (simp add: get_application_list_try_def)
  then show ?thesis
    by (auto simp: AccessibilityManager_get_application_list_def isl_def)
qed

text \<open>
  The theorem at the service with three applications, the second without a name.
\<close>

theorem unresolved_entry_aborts_listing_witness:
  "get_desktop_count service = Inr 1 \<and> get_desktop service 0 = Inr desktop0
   \<and> get_child_count desktop0 = Inr 3 \<and> get_child_at_index desktop0 1 = Inr (Some nameless)
   \<and> get_role nameless = Inr APPLICATION
   \<and> get_name nameless = Inl (Exn ''Error'' ''name not available'')
   \<and> (\<exists>e'. AccessibilityManager_get_application_list service AccessibilityManager_init
             = ([], [list_error e']))"
proof -
  have a: "get_desktop_count service = Inr 1" "get_desktop service 0 = Inr desktop0"
    by (simp_all add: service_def)
  have b: "get_child_count desktop0 = Inr 3" "get_child_at_index desktop0 1 = Inr (Some nameless)"
    by (simp_all add: desktop0_def)
  have c: "get_role nameless = Inr APPLICATION"
    "get_name nameless = Inl (Exn ''Error'' ''name not available'')"
    by (simp_all add: nameless_def widget_def)
  have "\<exists>e'. AccessibilityManager_get_application_list service AccessibilityManager_init
             = ([], [list_error e'])"
    by (rule unresolved_entry_aborts_listing [OF a(1) _ _ a(2) b(1) _ _ b(2) c]) simp_all
  with a b c show ?thesis by simp
qed

text \<open>
  C6 as stated fails: with three applications of which exactly one fails to resolve its
  name, the listing is empty, not two summaries.
\<close>

theorem three_applications_one_nameless:
  "AccessibilityManager_get_application_list service AccessibilityManager_init =
     ([], [list_error (Exn ''Error'' ''name not available'')])"
  by (simp add: AccessibilityManager_get_application_list_def get_application_list_try_def
      service_def py_range_1 py_range_3 desktop0_def app_entry_def widget_def nameless_def
      AccessibilityNode_init_def)

lemma listeners_of_update:
  "listeners_of (m\<lparr>event_listeners := AList.update k v (event_listeners m)\<rparr>) k' =
     (if k' = k then v else listeners_of m k')"
  by (simp add: listeners_of_def update_conv')

lemma listeners_of_register:
  "listeners_of (fst (snd (register_event_listener a et cb m))) et' =
     (if et' = et then listeners_of m et @ [cb] else listeners_of m et')"
  by (simp add: register_event_listener_def Let_def listeners_of_update split: option.splits)



lemma deregister_all_ok:
  "\<forall>l. deregister_keystroke_listener a l = None \<Longrightarrow>
   deregister_all a ls = (map DeregisterKeystroke ls, None)"
  by (induction ls) auto

lemma listeners_of_Some:
  assumes "cb \<in> set (listeners_of m et)"
  shows "\<exists>ls. map_of (event_listeners m) et = Some ls \<and> cb \<in> set ls"
proof (cases "map_of (event_listeners m) et")
  case None
  with assms show ?thesis by (simp add: listeners_of_def)
next
  case (Some ls)
  with assms show ?thesis by (simp add: listeners_of_def)
qed

lemma listeners_of_in_dict:
  assumes "cb \<in> set (listeners_of m et)"
  shows "cb \<in> set (concat (map snd (event_listeners m)))"
proof -
  from listeners_of_Some [OF assms] obtain ls
    where l: "map_of (event_listeners m) et = Some ls" and c: "cb \<in> set ls"
    by blast
  from map_of_SomeD [OF l] have "(et, ls) \<in> set (event_listeners m)" .
  with c show ?thesis by force
qed

lemma unregister_present:
  assumes "cb \<in> set (listeners_of m et)" and "deregister_keystroke_listener a cb = None"
  shows "fst (unregister_event_listener a et cb m)"
proof -
  from listeners_of_Some [OF assms(1)] obtain ls
    where l: "map_of (event_listeners m) et = Some ls" and c: "cb \<in> set ls"
    by blast
  then show ?thesis
    using assms(2) by (simp add: unregister_event_listener_def Let_def)
qed






text \<open>
  C10. When the service raises on registration, \<^verbatim>\<open>register_event_listener\<close> returns
  false and the callback is the last entry of the event type's list all the same. A later
  \<^verbatim>\<open>unregister_event_listener\<close> finds it, and \<^verbatim>\<open>cleanup\<close> deregisters it at the
  service.
\<close>

theorem failed_registration_keeps_callback:
  assumes "register_keystroke_listener a cb = Some e"
  shows "fst (register_event_listener a et cb m) = False
   \<and> listeners_of (fst (snd (register_event_listener a et cb m))) et = listeners_of m et @ [cb]
   \<and> (deregister_keystroke_listener a' cb = None \<longrightarrow>
        fst (unregister_event_listener a' et cb (fst (snd (register_event_listener a et cb m)))))
   \<and> ((\<forall>l. deregister_keystroke_listener a' l = None) \<longrightarrow>
        DeregisterKeystroke cb \<in> set (snd (AccessibilityManager_cleanup a'
          (fst (snd (register_event_listener a et cb m))))))"
proof (intro conjI impI)
  show "fst (register_event_listener a et cb m) = False"
    using assms by (simp add: register_event_listener_def Let_def)
  show l: "listeners_of (fst (snd (register_event_listener a et cb m))) et
             = listeners_of m et @ [cb]"
    by (simp add: listeners_of_register)
  then have c: "cb \<in> set (listeners_of (fst (snd (register_event_listener a et cb m))) et)"
    by simp
  {
    assume "deregister_keystroke_listener a' cb = None"
    with c show "fst (unregister_event_listener a' et cb
        (fst (snd (register_event_listener a et cb m))))"
      by (rule unregister_present)
  }
  {
    assume d: "\<forall>l. deregister_keystroke_listener a' l = None"
    from listeners_of_in_dict [OF c] deregister_all_ok [OF d]
    show "DeregisterKeystroke cb \<in> set (snd (AccessibilityManager_cleanup a'
          (fst (snd (register_event_listener a et cb m)))))"
      by (auto simp: AccessibilityManager_cleanup_def Let_def split: option.splits)
  }
qed

text \<open>
  The theorem at a service that refuses every registration.
\<close>

theorem failed_registration_keeps_callback_witness:
  "register_keystroke_listener refusing_service 5 = Some (Exn ''TypeError'' ''register_keystroke_listener'')
   \<and> deregister_keystroke_listener service 5 = None
   \<and> fst (register_event_listener refusing_service ''key'' 5 AccessibilityManager_init) = False
   \<and> listeners_of (fst (snd (register_event_listener refusing_service ''key'' 5
        AccessibilityManager_init))) ''key'' = [5]
   \<and> fst (unregister_event_listener service ''key'' 5
        (fst (snd (register_event_listener refusing_service ''key'' 5 AccessibilityManager_init))))
   \<and> DeregisterKeystroke 5 \<in> set (snd (AccessibilityManager_cleanup service
        (fst (snd (register_event_listener refusing_service ''key'' 5
           AccessibilityManager_init)))))"
proof -
  have a: "register_keystroke_listener refusing_service 5
             = Some (Exn ''TypeError'' ''register_keystroke_listener'')"
    by (simp add: refusing_service_def service_def)
  have b: "\<forall>l. deregister_keystroke_listener service l = None"
    by (simp add: service_def)
  have c: "listeners_of AccessibilityManager_init ''key'' = []"
    by (simp add: listeners_of_def AccessibilityManager_init_def)
  show ?thesis
    using failed_registration_keeps_callback [OF a, of "''key''" AccessibilityManager_init service]
      a b c
    by simp
qed

end
